theory Spec2Isabelle
  imports Complex_Main "HOL-Library.AList"
begin

section \<open>JavaScript values, errors and the browser environment\<close>

text \<open>
  The dashboard controller is one script, \<^verbatim>\<open>static/dashboard.js\<close>. It is modelled by
  state passing: every function takes the page state (\<open>world\<close>) and returns the new one,
  an \<^verbatim>\<open>async\<close> function that can reject returns \<open>error + 'a\<close> beside it, and everything the
  script asks of the outside (the identity provider, \<^verbatim>\<open>fetch\<close>, \<^verbatim>\<open>confirm\<close>) is answered by an
  oracle \<open>env\<close>. Every request that leaves the page, every timer call and every task
  started without \<^verbatim>\<open>await\<close> is appended to \<open>log\<close>.
  Each handler is modelled run to completion: other handlers that the event loop could
  interleave at an \<^verbatim>\<open>await\<close> are not part of the model.
\<close>

text \<open>
  Numbers are IEEE doubles in the source. The script does no arithmetic on them, it only
  compares them with constants and formats them, so a number is a rational or \<open>NaN\<close>;
  parsing and formatting are parameters (\<open>prims\<close>, below).
\<close>

datatype jsnum = NaN | Fin rat

datatype jsval =
    Undefined
  | Null
  | Bool bool
  | Num jsnum
  | Str string
  | Arr "jsval list"
  | Obj "(string \<times> jsval) list"

datatype error = Error string | TypeError string | SyntaxError string

text \<open>Truthiness, as \<^verbatim>\<open>if (x)\<close>, \<^verbatim>\<open>!x\<close> and \<^verbatim>\<open>x || y\<close> use it.\<close>

fun truthy :: "jsval \<Rightarrow> bool" where
  "truthy Undefined = False"
| "truthy Null = False"
| "truthy (Bool b) = b"
| "truthy (Num NaN) = False"
| "truthy (Num (Fin r)) = (r \<noteq> 0)"
| "truthy (Str s) = (s \<noteq> [])"
| "truthy (Arr xs) = True"
| "truthy (Obj kvs) = True"

definition js_or :: "jsval \<Rightarrow> jsval \<Rightarrow> jsval" where
  "js_or a b = (if truthy a then a else b)"

text \<open>
  Property read \<^verbatim>\<open>v.p\<close>: a TypeError on \<^verbatim>\<open>undefined\<close> and \<^verbatim>\<open>null\<close>, the member of an object,
  \<^verbatim>\<open>length\<close> of an array or string, \<^verbatim>\<open>undefined\<close> otherwise (values decoded from JSON carry
  no other own properties the script reads).
\<close>

fun get_prop :: "jsval \<Rightarrow> string \<Rightarrow> error + jsval" where
  "get_prop Undefined p = Inl (TypeError (''Cannot read properties of undefined (reading '' @ p @ '')''))"
| "get_prop Null p = Inl (TypeError (''Cannot read properties of null (reading '' @ p @ '')''))"
| "get_prop (Obj kvs) p = Inr (case map_of kvs p of None \<Rightarrow> Undefined | Some v \<Rightarrow> v)"
| "get_prop (Arr xs) p = Inr (if p = ''length'' then Num (Fin (of_nat (length xs))) else Undefined)"
| "get_prop (Str s) p = Inr (if p = ''length'' then Num (Fin (of_nat (length s))) else Undefined)"
| "get_prop (Bool b) p = Inr Undefined"
| "get_prop (Num n) p = Inr Undefined"

text \<open>Optional chaining \<^verbatim>\<open>v?.p\<close>.\<close>

definition get_opt :: "jsval \<Rightarrow> string \<Rightarrow> jsval" where
  "get_opt v p = (case get_prop v p of Inl e \<Rightarrow> Undefined | Inr x \<Rightarrow> x)"

text \<open>\<^verbatim>\<open>s.includes(pat)\<close> on strings.\<close>

fun str_includes :: "string \<Rightarrow> string \<Rightarrow> bool" where
  "str_includes [] pat = (pat = [])"
| "str_includes (c # cs) pat = (take (length pat) (c # cs) = pat \<or> str_includes cs pat)"

text \<open>Decimal digits of a natural number, as a template literal prints a status code.\<close>

fun string_of_nat :: "nat \<Rightarrow> string" where
  "string_of_nat n =
     (if n < 10 then [char_of (48 + n)]
      else string_of_nat (n div 10) @ [char_of (48 + n mod 10)])"

subsection \<open>Requests and responses\<close>

text \<open>
  The second argument of \<^verbatim>\<open>fetch\<close>. An object's keys keep their insertion order, so
  headers are an association list and the spread \<^verbatim>\<open>{...a, ...b}\<close> updates it key by key.
  \<open>http_method\<close> is the \<^verbatim>\<open>method\<close> key; \<open>body\<close> holds the value handed to
  \<^verbatim>\<open>JSON.stringify\<close>, not its serialisation.
\<close>

record fetch_options =
  http_method :: "string option"
  body :: "jsval option"
  headers :: "(string \<times> string) list"

definition no_options :: fetch_options where
  "no_options = \<lparr>http_method = None, body = None, headers = []\<rparr>"

definition spread :: "(string \<times> string) list \<Rightarrow> (string \<times> string) list \<Rightarrow> (string \<times> string) list" where
  "spread a b = foldl (\<lambda>acc kv. AList.update (fst kv) (snd kv) acc) a b"

text \<open>
  What the script reads of a \<^verbatim>\<open>Response\<close>: the status, the \<^verbatim>\<open>content-type\<close> header
  (\<open>None\<close> for \<^verbatim>\<open>null\<close>) and the outcomes of \<^verbatim>\<open>json()\<close> and \<^verbatim>\<open>text()\<close>, which can reject.
  \<^verbatim>\<open>response.ok\<close> is the Fetch standard's: the status is in 200..299.
\<close>

record response =
  status :: nat
  contentType :: "string option"
  jsonBody :: "error + jsval"
  textBody :: "error + string"

definition ok :: "response \<Rightarrow> bool" where
  "ok r = (200 \<le> status r \<and> status r \<le> 299)"

datatype timer_kind = TokenRefresh | PeriodicUpdate | ToastHide

datatype event =
    GetIdToken
  | Fetch string fetch_options
  | Spawn string
  | SetInterval nat timer_kind nat
  | SetTimeout nat timer_kind nat
  | ClearInterval nat

text \<open>
  The oracle: the outcome of the k-th forced token refresh, of the k-th \<^verbatim>\<open>fetch\<close> (given
  what was requested) and the user's answer to a \<^verbatim>\<open>confirm\<close> prompt.
\<close>

record env =
  idToken :: "nat \<Rightarrow> error + string"
  fetchOutcome :: "nat \<Rightarrow> string \<Rightarrow> fetch_options \<Rightarrow> error + response"
  confirmAnswer :: "string \<Rightarrow> bool"

subsection \<open>The page: DOM elements and the script's globals\<close>

text \<open>
  An element is reached by its id or as the first match of a selector under another
  element. Its properties (\<^verbatim>\<open>textContent\<close>, \<^verbatim>\<open>value\<close>, \<^verbatim>\<open>innerHTML\<close>, \<^verbatim>\<open>disabled\<close>,
  \<^verbatim>\<open>placeholder\<close>, \<^verbatim>\<open>style.display\<close>, \<^verbatim>\<open>style.color\<close>) hold the value the script assigned, before
  the DOM's conversion to a string; \<open>classes\<close> is the class list, which \<^verbatim>\<open>className\<close>
  replaces whole; \<open>checked\<close> is the state of a checkbox, a boolean whatever is assigned.
\<close>

datatype node = ById string | Query node string

record element =
  props :: "string \<Rightarrow> jsval"
  classes :: "string list"
  checked :: bool

type_synonym dom = "node \<Rightarrow> element option"

text \<open>The listeners that \<^verbatim>\<open>setupSmartRecommendations\<close> attaches.\<close>

datatype listener =
    OnTimeframeChange
  | OnSLInput
  | OnTPInput
  | OnSLRecommendationClick
  | OnTPRecommendationClick
  | OnUseSLClick
  | OnUseTPClick

text \<open>
  Beside the script's globals, the page state holds the DOM (\<open>page\<close>), the listeners
  attached so far, the browser's table of pending timers (\<open>timers\<close>: handle, purpose,
  milliseconds) and the number of timers created so far: \<^verbatim>\<open>setInterval\<close> and
  \<^verbatim>\<open>setTimeout\<close> share one pool of handles, and a handle is an integer greater than zero.
\<close>

record world =
  currentUser :: "string option"
  authToken :: "string option"
  tokenRefreshInterval :: "nat option"
  updateInterval :: "nat option"
  manualSL :: bool
  manualTP :: bool
  page :: dom
  timers :: "(nat \<times> timer_kind \<times> nat) list"
  timerCount :: nat
  listeners :: "listener list"
  log :: "event list"

text \<open>\<^verbatim>\<open>!authToken\<close> holds for \<^verbatim>\<open>null\<close> and for the empty string.\<close>

definition has_token :: "world \<Rightarrow> bool" where
  "has_token w = (case authToken w of None \<Rightarrow> False | Some t \<Rightarrow> t \<noteq> [])"

definition token_text :: "world \<Rightarrow> string" where
  "token_text w = (case authToken w of None \<Rightarrow> ''null'' | Some t \<Rightarrow> t)"

definition is_fetch :: "event \<Rightarrow> bool" where
  "is_fetch ev = (case ev of Fetch ep opts \<Rightarrow> True | _ \<Rightarrow> False)"

definition fetches :: "event list \<Rightarrow> event list" where
  "fetches evs = filter is_fetch evs"

definition refreshes :: "event list \<Rightarrow> event list" where
  "refreshes evs = filter (\<lambda>ev. ev = GetIdToken) evs"

section \<open>The authenticated API client\<close>

text \<open>
  \<^verbatim>\<open>getFreshToken\<close>: with a signed-in user, ask the provider for a forced-fresh token and
  store it; without one, or when the provider rejects, throw.
\<close>

definition getFreshToken :: "env \<Rightarrow> world \<Rightarrow> (error + string) \<times> world" where
  "getFreshToken e w =
     (case currentUser w of
        None \<Rightarrow> (Inl (Error ''No current user''), w)
      | Some u \<Rightarrow>
          (let w1 = w\<lparr>log := log w @ [GetIdToken]\<rparr> in
           case idToken e (length (refreshes (log w))) of
             Inl err \<Rightarrow> (Inl err, w1)
           | Inr t \<Rightarrow> (Inr t, w1\<lparr>authToken := Some t\<rparr>)))"

definition doFetch :: "env \<Rightarrow> string \<Rightarrow> fetch_options \<Rightarrow> world \<Rightarrow> (error + response) \<times> world" where
  "doFetch e endpoint opts w =
     (fetchOutcome e (length (fetches (log w))) endpoint opts,
      w\<lparr>log := log w @ [Fetch endpoint opts]\<rparr>)"

text \<open>The body of a 2xx response: JSON when the content type says so, text otherwise.\<close>

definition decodeBody :: "response \<Rightarrow> error + jsval" where
  "decodeBody r =
     (case contentType r of
        None \<Rightarrow> map_sum id Str (textBody r)
      | Some ct \<Rightarrow>
          if ct \<noteq> [] \<and> str_includes ct ''application/json'' then jsonBody r
          else map_sum id Str (textBody r))"

definition authFailed :: error where
  "authFailed = Error ''Authentication failed - please login again''"

text \<open>The \<^verbatim>\<open>try\<close> block entered on a 401 (lines 139 to 157).\<close>

definition retryBlock :: "env \<Rightarrow> string \<Rightarrow> fetch_options \<Rightarrow> world \<Rightarrow> (error + jsval) \<times> world" where
  "retryBlock e endpoint mergedOptions w =
     (case getFreshToken e w of
        (Inl err, w1) \<Rightarrow> (Inl err, w1)
      | (Inr t, w1) \<Rightarrow>
          (let retryOptions = mergedOptions
                 \<lparr>headers := AList.update ''Authorization'' (''Bearer '' @ token_text w1)
                                (headers mergedOptions)\<rparr>
           in case doFetch e endpoint retryOptions w1 of
                (Inl err, w2) \<Rightarrow> (Inl err, w2)
              | (Inr retryResponse, w2) \<Rightarrow>
                  if ok retryResponse then (decodeBody retryResponse, w2)
                  else (Inl (Error (''HTTP '' @ string_of_nat (status retryResponse) @ '' after retry'')), w2)))"

text \<open>Its \<^verbatim>\<open>catch\<close>: whatever was thrown is replaced by the authentication failure.\<close>

definition retryAfter401 :: "env \<Rightarrow> string \<Rightarrow> fetch_options \<Rightarrow> world \<Rightarrow> (error + jsval) \<times> world" where
  "retryAfter401 e endpoint mergedOptions w =
     (case retryBlock e endpoint mergedOptions w of
        (Inl refreshError, w1) \<Rightarrow> (Inl authFailed, w1)
      | (Inr v, w1) \<Rightarrow> (Inr v, w1))"

text \<open>
  \<^verbatim>\<open>mergedOptions\<close> (lines 120 to 131): the caller's options, with its headers spread over
  the two default ones.
\<close>

definition mergeOptions :: "world \<Rightarrow> fetch_options \<Rightarrow> fetch_options" where
  "mergeOptions w options =
     options\<lparr>headers :=
       spread [(''Content-Type'', ''application/json''),
               (''Authorization'', ''Bearer '' @ token_text w)] (headers options)\<rparr>"

text \<open>What follows the first \<^verbatim>\<open>fetch\<close> (lines 136 to 172).\<close>

definition handleResponse ::
  "env \<Rightarrow> string \<Rightarrow> fetch_options \<Rightarrow> response \<Rightarrow> world \<Rightarrow> (error + jsval) \<times> world" where
  "handleResponse e endpoint mergedOptions resp w =
     (if \<not> ok resp then
        (if status resp = 401 then retryAfter401 e endpoint mergedOptions w
         else (Inl (Error (''HTTP '' @ string_of_nat (status resp))), w))
      else (decodeBody resp, w))"

text \<open>
  The check at the top of the call (lines 111 to 114): without a cached token, get one
  first.
\<close>

definition ensureToken :: "env \<Rightarrow> world \<Rightarrow> (error + unit) \<times> world" where
  "ensureToken e w =
     (if \<not> has_token w then
        (case getFreshToken e w of
           (Inl err, w1) \<Rightarrow> (Inl err, w1)
         | (Inr t, w1) \<Rightarrow> (Inr (), w1))
      else (Inr (), w))"

definition makeAuthenticatedApiCall ::
  "env \<Rightarrow> string \<Rightarrow> fetch_options \<Rightarrow> world \<Rightarrow> (error + jsval) \<times> world" where
  "makeAuthenticatedApiCall e endpoint options w =
     (case ensureToken e w of
        (Inl err, w1) \<Rightarrow> (Inl err, w1)
      | (Inr u, w1) \<Rightarrow>
          if \<not> has_token w1 then (Inl (Error ''Could not obtain authentication token''), w1)
          else
            (let mergedOptions = mergeOptions w1 options in
             case doFetch e endpoint mergedOptions w1 of
               (Inl err, w2) \<Rightarrow> (Inl err, w2)
             | (Inr resp, w2) \<Rightarrow> handleResponse e endpoint mergedOptions resp w2))"

text \<open>The options of the retry, as line 141 builds them from a fresh token \<open>t\<close>.\<close>

definition retryOptionsFor :: "fetch_options \<Rightarrow> string \<Rightarrow> fetch_options" where
  "retryOptionsFor mergedOptions t =
     mergedOptions\<lparr>headers := AList.update ''Authorization'' (''Bearer '' @ t) (headers mergedOptions)\<rparr>"

section \<open>Timers and the polling scheduler\<close>

definition setInterval :: "timer_kind \<Rightarrow> nat \<Rightarrow> world \<Rightarrow> nat \<times> world" where
  "setInterval k ms w =
     (let h = Suc (timerCount w) in
      (h, w\<lparr>timers := timers w @ [(h, k, ms)], timerCount := h,
             log := log w @ [SetInterval h k ms]\<rparr>))"

definition setTimeout :: "timer_kind \<Rightarrow> nat \<Rightarrow> world \<Rightarrow> nat \<times> world" where
  "setTimeout k ms w =
     (let h = Suc (timerCount w) in
      (h, w\<lparr>timers := timers w @ [(h, k, ms)], timerCount := h,
             log := log w @ [SetTimeout h k ms]\<rparr>))"

definition clearInterval :: "nat \<Rightarrow> world \<Rightarrow> world" where
  "clearInterval h w =
     w\<lparr>timers := filter (\<lambda>t. fst t \<noteq> h) (timers w), log := log w @ [ClearInterval h]\<rparr>"

text \<open>\<^verbatim>\<open>if (handle)\<close>: the variable holds a handle, and the handle is not 0.\<close>

definition truthy_handle :: "nat option \<Rightarrow> bool" where
  "truthy_handle v = (case v of None \<Rightarrow> False | Some h \<Rightarrow> h \<noteq> 0)"

text \<open>
  \<^verbatim>\<open>setupTokenRefresh\<close> and \<^verbatim>\<open>startPeriodicUpdates\<close> register their callback for every
  50 minutes and every 30 seconds; the callbacks are \<open>tokenRefreshTick\<close> and
  \<open>periodicTick\<close> below.
\<close>

definition setupTokenRefresh :: "world \<Rightarrow> world" where
  "setupTokenRefresh w =
     (let w1 = (if truthy_handle (tokenRefreshInterval w)
                then clearInterval (the (tokenRefreshInterval w)) w else w);
          (h, w2) = setInterval TokenRefresh (50 * 60 * 1000) w1
      in w2\<lparr>tokenRefreshInterval := Some h\<rparr>)"

definition startPeriodicUpdates :: "world \<Rightarrow> world" where
  "startPeriodicUpdates w =
     (let w1 = (if truthy_handle (updateInterval w)
                then clearInterval (the (updateInterval w)) w else w);
          (h, w2) = setInterval PeriodicUpdate 30000 w1
      in w2\<lparr>updateInterval := Some h\<rparr>)"

definition stopPeriodicUpdates :: "world \<Rightarrow> world" where
  "stopPeriodicUpdates w =
     (if truthy_handle (updateInterval w)
      then (clearInterval (the (updateInterval w)) w)\<lparr>updateInterval := None\<rparr>
      else w)"

text \<open>The handles of the live status/dashboard polling timers.\<close>

definition polling :: "world \<Rightarrow> nat list" where
  "polling w = map fst (filter (\<lambda>t. fst (snd t) = PeriodicUpdate) (timers w))"

datatype scheduler_call = StartPeriodicUpdates | StopPeriodicUpdates

fun scheduler_step :: "world \<Rightarrow> scheduler_call \<Rightarrow> world" where
  "scheduler_step w StartPeriodicUpdates = startPeriodicUpdates w"
| "scheduler_step w StopPeriodicUpdates = stopPeriodicUpdates w"

definition scheduler_run :: "scheduler_call list \<Rightarrow> world \<Rightarrow> world" where
  "scheduler_run calls w = foldl scheduler_step w calls"

text \<open>Every live handle was issued: it is positive and at most the number of timers created.\<close>

definition issued :: "world \<Rightarrow> bool" where
  "issued w = list_all (\<lambda>t. fst t \<noteq> 0 \<and> fst t \<le> timerCount w) (timers w)"

text \<open>
  The polling handle variable and the timer table agree: every live handle was issued
  (it is positive and at most the number of timers created), and either the variable is
  \<^verbatim>\<open>null\<close> and no polling timer is live, or it holds the handle of the only live one.
\<close>

definition polling_agrees :: "world \<Rightarrow> bool" where
  "polling_agrees w =
     (list_all (\<lambda>t. fst t \<noteq> 0 \<and> fst t \<le> timerCount w) (timers w) \<and>
      (case updateInterval w of
         None \<Rightarrow> polling w = []
       | Some h \<Rightarrow> polling w = [h]))"

section \<open>DOM access\<close>

text \<open>
  String literals of the script that are not ASCII are written as their UTF-8 bytes, the
  encoding of the source file.
\<close>

definition getElementById :: "world \<Rightarrow> string \<Rightarrow> element option" where
  "getElementById w i = page w (ById i)"

definition present :: "world \<Rightarrow> node \<Rightarrow> bool" where
  "present w n = (page w n \<noteq> None)"

text \<open>
  The guarded writes of the script, \<^verbatim>\<open>if (el) el.p = v\<close>, \<^verbatim>\<open>if (el) el.classList.add(c)\<close>
  and so on: nothing happens when the element is missing.
\<close>

definition update_element :: "node \<Rightarrow> (element \<Rightarrow> element) \<Rightarrow> world \<Rightarrow> world" where
  "update_element n f w =
     (case page w n of
        None \<Rightarrow> w
      | Some el \<Rightarrow> w\<lparr>page := (page w)(n \<mapsto> f el)\<rparr>)"

definition set_prop :: "node \<Rightarrow> string \<Rightarrow> jsval \<Rightarrow> world \<Rightarrow> world" where
  "set_prop n p v = update_element n (\<lambda>el. el\<lparr>props := (props el)(p := v)\<rparr>)"

definition set_className :: "node \<Rightarrow> string list \<Rightarrow> world \<Rightarrow> world" where
  "set_className n cs = update_element n (\<lambda>el. el\<lparr>classes := cs\<rparr>)"

definition add_class :: "node \<Rightarrow> string \<Rightarrow> world \<Rightarrow> world" where
  "add_class n c =
     update_element n (\<lambda>el. el\<lparr>classes := (if c \<in> set (classes el) then classes el
                                             else classes el @ [c])\<rparr>)"

definition remove_class :: "node \<Rightarrow> string \<Rightarrow> world \<Rightarrow> world" where
  "remove_class n c = update_element n (\<lambda>el. el\<lparr>classes := filter (\<lambda>x. x \<noteq> c) (classes el)\<rparr>)"

definition prop_of :: "world \<Rightarrow> node \<Rightarrow> string \<Rightarrow> jsval" where
  "prop_of w n p = (case page w n of None \<Rightarrow> Undefined | Some el \<Rightarrow> props el p)"

section \<open>Smart timeframe recommendations\<close>

record recommendation =
  name :: string
  stopLoss :: rat
  takeProfit :: rat
  winRate :: nat
  description :: string
  riskLevel :: string
  maxHoldTime :: string

text \<open>
  The table of lines 10 to 56. A lookup \<^verbatim>\<open>timeframeRecommendations[timeframe]\<close> is by own
  key; the members an object literal inherits from its prototype are not modelled.
\<close>

definition timeframeRecommendations :: "string \<Rightarrow> recommendation option" where
  "timeframeRecommendations = map_of
     [(''5m'', \<lparr>name = ([CHR 0xF0, CHR 0x9F, CHR 0x8F, CHR 0x83, CHR 0xE2, CHR 0x80, CHR 0x8D, CHR 0xE2, CHR 0x99, CHR 0x82, CHR 0xEF, CHR 0xB8, CHR 0x8F] @ '' H'' @ [CHR 0xC4, CHR 0xB1] @ ''zl'' @ [CHR 0xC4, CHR 0xB1] @ '' Scalping''), stopLoss = 3 / 10, takeProfit = 5 / 10,
               winRate = 75, description = (''G'' @ [CHR 0xC3, CHR 0xBC] @ ''nde 10-20 trade, g'' @ [CHR 0xC3, CHR 0xBC] @ ''venli kazan'' @ [CHR 0xC3, CHR 0xA7]),
               riskLevel = ''low'', maxHoldTime = ''30 dakika''\<rparr>),
      (''15m'', \<lparr>name = ([CHR 0xF0, CHR 0x9F, CHR 0x93, CHR 0x88] @ '' Dengeli Swing''), stopLoss = 8 / 10, takeProfit = 12 / 10,
               winRate = 70, description = (''G'' @ [CHR 0xC3, CHR 0xBC] @ ''nde 5-10 trade, istikrarl'' @ [CHR 0xC4, CHR 0xB1] @ '' kar''),
               riskLevel = ''low'', maxHoldTime = ''2 saat''\<rparr>),
      (''30m'', \<lparr>name = ([CHR 0xF0, CHR 0x9F, CHR 0x8E, CHR 0xAF] @ '' Trend Takip''), stopLoss = 1, takeProfit = 2,
               winRate = 65, description = (''G'' @ [CHR 0xC3, CHR 0xBC, CHR 0xC3, CHR 0xA7] @ ''l'' @ [CHR 0xC3, CHR 0xBC] @ '' trend'' @ [CHR 0x27] @ ''lerde b'' @ [CHR 0xC3, CHR 0xBC] @ ''y'' @ [CHR 0xC3, CHR 0xBC] @ ''k kazan'' @ [CHR 0xC3, CHR 0xA7]),
               riskLevel = ''medium'', maxHoldTime = ''5 saat''\<rparr>),
      (''1h'', \<lparr>name = ([CHR 0xF0, CHR 0x9F, CHR 0x8F, CHR 0x94, CHR 0xEF, CHR 0xB8, CHR 0x8F] @ '' Pozisyon Trading''), stopLoss = 15 / 10, takeProfit = 3,
               winRate = 60, description = (''Major hareketlerde y'' @ [CHR 0xC3, CHR 0xBC] @ ''ksek kar''),
               riskLevel = ''medium'', maxHoldTime = ''12 saat''\<rparr>),
      (''4h'', \<lparr>name = ([CHR 0xF0, CHR 0x9F, CHR 0x9A, CHR 0x80] @ '' Major Trend''), stopLoss = 25 / 10, takeProfit = 5,
               winRate = 55, description = (''B'' @ [CHR 0xC3, CHR 0xBC] @ ''y'' @ [CHR 0xC3, CHR 0xBC] @ ''k trend'' @ [CHR 0x27] @ ''lerde maksimum kazan'' @ [CHR 0xC3, CHR 0xA7]),
               riskLevel = ''high'', maxHoldTime = ''48 saat''\<rparr>)]"

definition riskText :: "string \<Rightarrow> string" where
  "riskText level =
     (if level = ''low'' then (''D'' @ [CHR 0xC3, CHR 0x9C, CHR 0xC5, CHR 0x9E, CHR 0xC3, CHR 0x9C] @ ''K R'' @ [CHR 0xC4, CHR 0xB0] @ ''SK'')
      else if level = ''medium'' then (''ORTA R'' @ [CHR 0xC4, CHR 0xB0] @ ''SK'')
      else (''Y'' @ [CHR 0xC3, CHR 0x9C] @ ''KSEK R'' @ [CHR 0xC4, CHR 0xB0] @ ''SK''))"

text \<open>
  The two blocks at the end of \<^verbatim>\<open>updateStrategyInfo\<close> (lines 280 to 294): the field takes
  the recommended value when it is not under manual control and both the field and its
  recommendation button exist.
\<close>

definition applyRecommendedSL :: "recommendation \<Rightarrow> world \<Rightarrow> world" where
  "applyRecommendedSL rec w =
     (if \<not> manualSL w \<and> present w (ById ''stop-loss'') \<and> present w (ById ''sl-recommendation-btn'')
      then
        (remove_class (ById ''sl-recommendation-btn'') ''inactive''
        (add_class (ById ''sl-recommendation-btn'') ''active''
        (remove_class (ById ''stop-loss'') ''manual-input''
        (add_class (ById ''stop-loss'') ''recommended-input''
        (set_prop (ById ''stop-loss'') ''value'' (Num (Fin (stopLoss rec))) w)))))
      else w)"

definition applyRecommendedTP :: "recommendation \<Rightarrow> world \<Rightarrow> world" where
  "applyRecommendedTP rec w =
     (if \<not> manualTP w \<and> present w (ById ''take-profit'') \<and> present w (ById ''tp-recommendation-btn'')
      then
        (remove_class (ById ''tp-recommendation-btn'') ''inactive''
        (add_class (ById ''tp-recommendation-btn'') ''active''
        (remove_class (ById ''take-profit'') ''manual-input''
        (add_class (ById ''take-profit'') ''recommended-input''
        (set_prop (ById ''take-profit'') ''value'' (Num (Fin (takeProfit rec))) w)))))
      else w)"

text \<open>The strategy card, the risk badge and the two recommended values (lines 249 to 272).\<close>

definition showStrategy :: "recommendation \<Rightarrow> world \<Rightarrow> world" where
  "showStrategy rec w =
     (set_prop (ById ''tp-recommended-value'') ''textContent'' (Num (Fin (takeProfit rec)))
     (set_prop (ById ''sl-recommended-value'') ''textContent'' (Num (Fin (stopLoss rec)))
     (set_prop (ById ''risk-badge'') ''textContent'' (Str (riskText (riskLevel rec)))
     (set_className (ById ''risk-badge'') [''risk-badge'', riskLevel rec]
     (set_prop (ById ''max-hold-time'') ''textContent'' (Str (([CHR 0xE2, CHR 0x8F, CHR 0xB1, CHR 0xEF, CHR 0xB8, CHR 0x8F] @ '' Max: '') @ maxHoldTime rec))
     (set_prop (ById ''expected-win-rate'') ''textContent''
        (Str (([CHR 0xF0, CHR 0x9F, CHR 0x8E, CHR 0xAF] @ '' '') @ string_of_nat (winRate rec) @ ''% Win Rate''))
     (set_prop (ById ''strategy-description'') ''textContent'' (Str (description rec))
     (set_prop (ById ''strategy-name'') ''textContent'' (Str (name rec)) w))))))))"

definition updateStrategyInfo :: "string \<Rightarrow> world \<Rightarrow> world" where
  "updateStrategyInfo timeframe w =
     (case timeframeRecommendations timeframe of
        None \<Rightarrow> w
      | Some rec \<Rightarrow> applyRecommendedTP rec (applyRecommendedSL rec (showStrategy rec w)))"

subsection \<open>The listeners of \<^verbatim>\<open>setupSmartRecommendations\<close>\<close>

text \<open>A listener is attached when its element exists at setup.\<close>

definition addEventListener :: "node \<Rightarrow> listener \<Rightarrow> world \<Rightarrow> world" where
  "addEventListener n l w = (if present w n then w\<lparr>listeners := listeners w @ [l]\<rparr> else w)"

definition setupSmartRecommendations :: "world \<Rightarrow> world" where
  "setupSmartRecommendations w =
     (addEventListener (ById ''use-tp-recommended'') OnUseTPClick
     (addEventListener (ById ''use-sl-recommended'') OnUseSLClick
     (addEventListener (ById ''tp-recommendation-btn'') OnTPRecommendationClick
     (addEventListener (ById ''sl-recommendation-btn'') OnSLRecommendationClick
     (addEventListener (ById ''take-profit'') OnTPInput
     (addEventListener (ById ''stop-loss'') OnSLInput
     (addEventListener (ById ''timeframe-select'') OnTimeframeChange
     (updateStrategyInfo ''15m'' w))))))))"

text \<open>The listener bodies. \<^verbatim>\<open>this\<close> is the element the listener is attached to.\<close>

definition onSLInput :: "world \<Rightarrow> world" where
  "onSLInput w =
     (set_prop (ById ''sl-hint'') ''style.display'' (Str ''block'')
     (remove_class (ById ''sl-recommendation-btn'') ''active''
     (add_class (ById ''sl-recommendation-btn'') ''inactive''
     (remove_class (ById ''stop-loss'') ''recommended-input''
     (add_class (ById ''stop-loss'') ''manual-input''
     (w\<lparr>manualSL := True\<rparr>))))))"

definition onTPInput :: "world \<Rightarrow> world" where
  "onTPInput w =
     (set_prop (ById ''tp-hint'') ''style.display'' (Str ''block'')
     (remove_class (ById ''tp-recommendation-btn'') ''active''
     (add_class (ById ''tp-recommendation-btn'') ''inactive''
     (remove_class (ById ''take-profit'') ''recommended-input''
     (add_class (ById ''take-profit'') ''manual-input''
     (w\<lparr>manualTP := True\<rparr>))))))"

text \<open>
  \<^verbatim>\<open>document.getElementById('timeframe-select').value\<close>: a TypeError without the select, which
  ends the listener before it has done anything; the value of a select is a string.
\<close>

definition selectedRecommendation :: "world \<Rightarrow> recommendation option" where
  "selectedRecommendation w =
     (case getElementById w ''timeframe-select'' of
        None \<Rightarrow> None
      | Some sel \<Rightarrow> (case props sel ''value'' of Str tf \<Rightarrow> timeframeRecommendations tf | _ \<Rightarrow> None))"

definition onSLRecommendationClick :: "world \<Rightarrow> world" where
  "onSLRecommendationClick w =
     (case selectedRecommendation w of
        None \<Rightarrow> w
      | Some rec \<Rightarrow>
          (set_prop (ById ''sl-hint'') ''style.display'' (Str ''none'')
          (remove_class (ById ''sl-recommendation-btn'') ''inactive''
          (add_class (ById ''sl-recommendation-btn'') ''active''
          (remove_class (ById ''stop-loss'') ''manual-input''
          (add_class (ById ''stop-loss'') ''recommended-input''
          (set_prop (ById ''stop-loss'') ''value'' (Num (Fin (stopLoss rec)))
          (w\<lparr>manualSL := False\<rparr>))))))))"

definition onTPRecommendationClick :: "world \<Rightarrow> world" where
  "onTPRecommendationClick w =
     (case selectedRecommendation w of
        None \<Rightarrow> w
      | Some rec \<Rightarrow>
          (set_prop (ById ''tp-hint'') ''style.display'' (Str ''none'')
          (remove_class (ById ''tp-recommendation-btn'') ''inactive''
          (add_class (ById ''tp-recommendation-btn'') ''active''
          (remove_class (ById ''take-profit'') ''manual-input''
          (add_class (ById ''take-profit'') ''recommended-input''
          (set_prop (ById ''take-profit'') ''value'' (Num (Fin (takeProfit rec)))
          (w\<lparr>manualTP := False\<rparr>))))))))"

text \<open>
  An event on an element runs the listeners attached for it, once per registration, in
  order. A click, whether the user's or \<^verbatim>\<open>.click()\<close>, needs the element.
\<close>

definition run_listeners :: "listener \<Rightarrow> (world \<Rightarrow> world) \<Rightarrow> world \<Rightarrow> world" where
  "run_listeners l f w = (f ^^ count_list (listeners w) l) w"

definition clickSLRecommendation :: "world \<Rightarrow> world" where
  "clickSLRecommendation w =
     (if present w (ById ''sl-recommendation-btn'')
      then run_listeners OnSLRecommendationClick onSLRecommendationClick w else w)"

definition clickTPRecommendation :: "world \<Rightarrow> world" where
  "clickTPRecommendation w =
     (if present w (ById ''tp-recommendation-btn'')
      then run_listeners OnTPRecommendationClick onTPRecommendationClick w else w)"

text \<open>
  What the user does to the settings form: pick a timeframe, type into one of the two
  fields, click a recommendation toggle or a "use recommended" button. Picking and typing
  set the element's value before the event is dispatched.
\<close>

datatype user_action =
    SelectTimeframe string
  | EditStopLoss string
  | EditTakeProfit string
  | ClickSLRecommendation
  | ClickTPRecommendation
  | ClickUseSLRecommended
  | ClickUseTPRecommended

fun act :: "user_action \<Rightarrow> world \<Rightarrow> world" where
  "act (SelectTimeframe tf) w =
     (if present w (ById ''timeframe-select'')
      then run_listeners OnTimeframeChange (updateStrategyInfo tf)
             (set_prop (ById ''timeframe-select'') ''value'' (Str tf) w)
      else w)"
| "act (EditStopLoss txt) w =
     (if present w (ById ''stop-loss'')
      then run_listeners OnSLInput onSLInput (set_prop (ById ''stop-loss'') ''value'' (Str txt) w)
      else w)"
| "act (EditTakeProfit txt) w =
     (if present w (ById ''take-profit'')
      then run_listeners OnTPInput onTPInput (set_prop (ById ''take-profit'') ''value'' (Str txt) w)
      else w)"
| "act ClickSLRecommendation w = clickSLRecommendation w"
| "act ClickTPRecommendation w = clickTPRecommendation w"
| "act ClickUseSLRecommended w =
     (if present w (ById ''use-sl-recommended'')
      then run_listeners OnUseSLClick clickSLRecommendation w else w)"
| "act ClickUseTPRecommended w =
     (if present w (ById ''use-tp-recommended'')
      then run_listeners OnUseTPClick clickTPRecommendation w else w)"

definition settings_form_ready :: "world \<Rightarrow> bool" where
  "settings_form_ready w =
     (present w (ById ''timeframe-select'') \<and>
      present w (ById ''stop-loss'') \<and> present w (ById ''take-profit'') \<and>
      present w (ById ''sl-recommendation-btn'') \<and> present w (ById ''tp-recommendation-btn'') \<and>
      present w (ById ''use-sl-recommended'') \<and> present w (ById ''use-tp-recommended'') \<and>
      set (listeners w) = {OnTimeframeChange, OnSLInput, OnTPInput, OnSLRecommendationClick,
                           OnTPRecommendationClick, OnUseSLClick, OnUseTPClick})"

section \<open>Sequencing of code that can throw\<close>

type_synonym 'a action = "world \<Rightarrow> (error + 'a) \<times> world"

definition ret :: "'a \<Rightarrow> 'a action" where
  "ret x w = (Inr x, w)"

definition throw :: "error \<Rightarrow> 'a action" where
  "throw err w = (Inl err, w)"

definition expr :: "error + 'a \<Rightarrow> 'a action" where
  "expr r w = (r, w)"

definition effect :: "(world \<Rightarrow> world) \<Rightarrow> unit action" where
  "effect f w = (Inr (), f w)"

definition andThen :: "'a action \<Rightarrow> ('a \<Rightarrow> 'b action) \<Rightarrow> 'b action" where
  "andThen m f w = (case m w of (Inl err, w1) \<Rightarrow> (Inl err, w1) | (Inr x, w1) \<Rightarrow> f x w1)"

definition tryCatch :: "'a action \<Rightarrow> (error \<Rightarrow> 'a action) \<Rightarrow> 'a action" where
  "tryCatch m h w = (case m w of (Inl err, w1) \<Rightarrow> h err w1 | (Inr x, w1) \<Rightarrow> (Inr x, w1))"

text \<open>\<^verbatim>\<open>if (el) { ... }\<close> around statements that can throw.\<close>

definition whenPresent :: "node \<Rightarrow> unit action \<Rightarrow> unit action" where
  "whenPresent n m w = (if present w n then m w else (Inr (), w))"

definition message_of :: "error \<Rightarrow> string" where
  "message_of err = (case err of Error m \<Rightarrow> m | TypeError m \<Rightarrow> m | SyntaxError m \<Rightarrow> m)"

section \<open>Number and string primitives\<close>

text \<open>
  What the script asks of the language's number and string library: the conversion of a
  string or object to a number, \<^verbatim>\<open>parseFloat\<close>, \<^verbatim>\<open>parseInt\<close>, the conversion to a string
  that a template literal and \<^verbatim>\<open>new Error(x)\<close> apply, \<^verbatim>\<open>toFixed(2)\<close>,
  \<^verbatim>\<open>toLocaleString('tr-TR', ...)\<close> with two fraction digits and \<^verbatim>\<open>toLowerCase\<close>. They format and
  parse floating-point numbers and Unicode text; the model takes them as parameters and
  every property below holds whatever they are.
\<close>

record prims =
  strToNumber :: "jsval \<Rightarrow> jsnum"
  parseFloat :: "jsval \<Rightarrow> jsnum"
  parseInt :: "jsval \<Rightarrow> jsnum"
  toStr :: "jsval \<Rightarrow> string"
  toFixed2 :: "jsnum \<Rightarrow> string"
  toLocaleTR :: "jsnum \<Rightarrow> string"
  toLowerCase :: "string \<Rightarrow> string"

text \<open>The number a comparison with a numeric constant sees.\<close>

fun to_number :: "prims \<Rightarrow> jsval \<Rightarrow> jsnum" where
  "to_number P Undefined = NaN"
| "to_number P Null = Fin 0"
| "to_number P (Bool b) = Fin (if b then 1 else 0)"
| "to_number P (Num n) = n"
| "to_number P v = strToNumber P v"

definition num_gt :: "jsnum \<Rightarrow> rat \<Rightarrow> bool" where
  "num_gt n c = (case n of NaN \<Rightarrow> False | Fin r \<Rightarrow> c < r)"

definition num_ge :: "jsnum \<Rightarrow> rat \<Rightarrow> bool" where
  "num_ge n c = (case n of NaN \<Rightarrow> False | Fin r \<Rightarrow> c \<le> r)"

definition num_lt :: "jsnum \<Rightarrow> rat \<Rightarrow> bool" where
  "num_lt n c = (case n of NaN \<Rightarrow> False | Fin r \<Rightarrow> r < c)"

definition num_le :: "jsnum \<Rightarrow> rat \<Rightarrow> bool" where
  "num_le n c = (case n of NaN \<Rightarrow> False | Fin r \<Rightarrow> r \<le> c)"

definition num_abs :: "jsnum \<Rightarrow> jsnum" where
  "num_abs n = (case n of NaN \<Rightarrow> NaN | Fin r \<Rightarrow> Fin \<bar>r\<bar>)"

text \<open>\<^verbatim>\<open>n || d\<close> on numbers.\<close>

definition num_or :: "jsnum \<Rightarrow> jsnum \<Rightarrow> jsnum" where
  "num_or n d = (if truthy (Num n) then n else d)"

definition formatCurrency :: "prims \<Rightarrow> jsval \<Rightarrow> string \<Rightarrow> string" where
  "formatCurrency P amount currency =
     (let num = num_or (parseFloat P amount) (Fin 0) in toLocaleTR P num @ '' '' @ currency)"

definition formatPercentage :: "prims \<Rightarrow> jsval \<Rightarrow> string" where
  "formatPercentage P v =
     (let num = num_or (parseFloat P v) (Fin 0);
          sign = (if num_ge num 0 then ''+'' else [])
      in sign @ toFixed2 P num @ ''%'')"

text \<open>\<^verbatim>\<open>s.replace(pat, rep)\<close> with a string pattern: the first occurrence.\<close>

fun replace_first :: "string \<Rightarrow> string \<Rightarrow> string \<Rightarrow> string" where
  "replace_first pat rep [] = (if pat = [] then rep else [])"
| "replace_first pat rep (c # cs) =
     (if take (length pat) (c # cs) = pat then rep @ drop (length pat) (c # cs)
      else c # replace_first pat rep cs)"

section \<open>Notifications\<close>

definition toastIcon :: "string \<Rightarrow> string list" where
  "toastIcon type =
     (if type = ''success'' then [''fas'', ''fa-check-circle'']
      else if type = ''error'' then [''fas'', ''fa-exclamation-circle'']
      else if type = ''warning'' then [''fas'', ''fa-exclamation-triangle'']
      else [''fas'', ''fa-info-circle''])"

definition toastColor :: "string \<Rightarrow> string" where
  "toastColor type =
     (if type = ''success'' then ''var(--success-color)''
      else if type = ''error'' then ''var(--danger-color)''
      else if type = ''warning'' then ''var(--warning-color)''
      else ''var(--info-color)'')"

text \<open>
  \<^verbatim>\<open>showNotification\<close> reads the toast and its two children without a guard: a missing
  toast, icon or message element is a TypeError. The timeout that hides the toast again is
  entered in the timer table.
\<close>

definition showNotification :: "string \<Rightarrow> string \<Rightarrow> nat \<Rightarrow> unit action" where
  "showNotification message type duration w =
     (if \<not> present w (ById ''toast'') then
        (Inl (TypeError ''Cannot read properties of null (reading querySelector)''), w)
      else if \<not> present w (Query (ById ''toast'') ''.toast-icon'') then
        (Inl (TypeError ''Cannot set properties of null (setting className)''), w)
      else
        (let w1 = set_prop (Query (ById ''toast'') ''.toast-icon'') ''style.color'' (Str (toastColor type))
                    (set_className (Query (ById ''toast'') ''.toast-icon'') (''toast-icon'' # toastIcon type) w)
         in if \<not> present w1 (Query (ById ''toast'') ''.toast-message'') then
              (Inl (TypeError ''Cannot set properties of null (setting textContent)''), w1)
            else
              (Inr (),
               snd (setTimeout ToastHide duration
                 (add_class (ById ''toast'') ''show''
                   (set_prop (Query (ById ''toast'') ''.toast-message'') ''textContent'' (Str message) w1))))))"

section \<open>View renderers\<close>

definition showSubscriptionNote :: "prims \<Rightarrow> jsval \<Rightarrow> world \<Rightarrow> world" where
  "showSubscriptionNote P daysLeft w =
     (if num_le (to_number P daysLeft) 7 \<and> num_gt (to_number P daysLeft) 0 then
        set_prop (ById ''subscription-note'') ''style.color'' (Str ''var(--warning-color)'')
          (set_prop (ById ''subscription-note'') ''textContent''
             (Str (''Aboneli'' @ [CHR 0xC4, CHR 0x9F] @ ''iniz yak'' @ [CHR 0xC4, CHR 0xB1] @ ''nda sona erecek. Yenilemeyi unutmay'' @ [CHR 0xC4, CHR 0xB1] @ ''n!'')) w)
      else if num_le (to_number P daysLeft) 0 then
        set_prop (ById ''subscription-note'') ''style.color'' (Str ''var(--danger-color)'')
          (set_prop (ById ''subscription-note'') ''textContent''
             (Str (''Abonelik s'' @ [CHR 0xC3, CHR 0xBC] @ ''resi dolmu'' @ [CHR 0xC5, CHR 0x9F] @ ''. L'' @ [CHR 0xC3, CHR 0xBC] @ ''tfen yenileyin.'')) w)
      else
        set_prop (ById ''subscription-note'') ''style.color'' (Str ''var(--success-color)'')
          (set_prop (ById ''subscription-note'') ''textContent''
             (Str (''Aboneli'' @ [CHR 0xC4, CHR 0x9F] @ ''iniz aktif durumda.'')) w))"

definition showDaysRemaining :: "prims \<Rightarrow> jsval \<Rightarrow> world \<Rightarrow> world" where
  "showDaysRemaining P sub w =
     (if present w (ById ''days-remaining'') then
        (let daysLeft = js_or (get_opt sub ''daysRemaining'') (Num (Fin 0)) in
         showSubscriptionNote P daysLeft
           (set_prop (ById ''days-remaining'') ''textContent''
              (Str (if num_gt (to_number P daysLeft) 0 then toStr P daysLeft @ ('' g'' @ [CHR 0xC3, CHR 0xBC] @ ''n kald'' @ [CHR 0xC4, CHR 0xB1])
                    else (''S'' @ [CHR 0xC3, CHR 0xBC] @ ''resi dolmu'' @ [CHR 0xC5, CHR 0x9F]))) w))
      else w)"

text \<open>
  The block under \<^verbatim>\<open>if (profile.subscription)\<close> (lines 470 to 492); the subscription is
  truthy there, so reading its members cannot throw.
\<close>

definition showSubscription :: "prims \<Rightarrow> jsval \<Rightarrow> world \<Rightarrow> world" where
  "showSubscription P sub w =
     showDaysRemaining P sub
       ((\<lambda>v. if present v (ById ''sub-status-badge'')
             then set_prop (Query (ById ''sub-status-badge'') ''span'') ''textContent''
                    (Str (if get_opt sub ''status'' = Str ''active'' then ''Aktif'' else ''Deneme'')) v
             else v)
          (set_prop (ById ''subscription-text'') ''textContent''
             (js_or (get_opt sub ''plan'') (Str ''Premium'')) w))"

definition updateProfile :: "prims \<Rightarrow> jsval \<Rightarrow> unit action" where
  "updateProfile P profile =
     andThen
       (whenPresent (ById ''user-name'')
          (andThen (expr (get_prop profile ''email''))
             (\<lambda>email. effect (set_prop (ById ''user-name'') ''textContent''
                                 (js_or email (Str (''Kullan'' @ [CHR 0xC4, CHR 0xB1] @ ''c'' @ [CHR 0xC4, CHR 0xB1])))))))
       (\<lambda>u. andThen (expr (get_prop profile ''subscription''))
          (\<lambda>sub. if truthy sub then effect (showSubscription P sub) else ret ()))"

text \<open>The amount and its colour in \<^verbatim>\<open>total-pnl\<close>, as both the account and the stats renderer write them.\<close>

definition showPnl :: "prims \<Rightarrow> jsval \<Rightarrow> world \<Rightarrow> world" where
  "showPnl P v w =
     (let pnlValue = parseFloat P (js_or v (Num (Fin 0))) in
      set_prop (ById ''total-pnl'') ''style.color''
        (Str (if num_gt pnlValue 0 then ''var(--success-color)''
              else if num_lt pnlValue 0 then ''var(--danger-color)''
              else ''var(--text-primary)''))
        (set_prop (ById ''total-pnl'') ''textContent''
           (Str (formatCurrency P (js_or v (Num (Fin 0))) ''USDT'')) w))"

definition updateAccount :: "prims \<Rightarrow> jsval \<Rightarrow> unit action" where
  "updateAccount P account =
     andThen
       (whenPresent (ById ''total-balance'')
          (andThen (expr (get_prop account ''totalBalance''))
             (\<lambda>v. effect (set_prop (ById ''total-balance'') ''textContent''
                             (Str (formatCurrency P (js_or v (Num (Fin 0))) ''USDT''))))))
       (\<lambda>u. whenPresent (ById ''total-pnl'')
          (andThen (expr (get_prop account ''unrealizedPnl'')) (\<lambda>v. effect (showPnl P v))))"

definition updateStats :: "prims \<Rightarrow> jsval \<Rightarrow> unit action" where
  "updateStats P stats =
     andThen
       (whenPresent (ById ''total-trades'')
          (andThen (expr (get_prop stats ''totalTrades''))
             (\<lambda>v. effect (set_prop (ById ''total-trades'') ''textContent'' (js_or v (Str ''0''))))))
       (\<lambda>u. andThen
          (whenPresent (ById ''win-rate'')
             (andThen (expr (get_prop stats ''winRate''))
                (\<lambda>v. effect (set_prop (ById ''win-rate'') ''textContent''
                                (Str (formatPercentage P (js_or v (Num (Fin 0)))))))))
          (\<lambda>u. whenPresent (ById ''total-pnl'')
             (andThen (expr (get_prop stats ''totalPnl'')) (\<lambda>v. effect (showPnl P v)))))"

subsection \<open>Positions\<close>

definition emptyStateHTML :: string where
  \<open>emptyStateHTML = (''\<newline>            <div class="empty-state">\<newline>                <i class="fas fa-chart-line"></i>\<newline>                <h3>A''
        @ [CHR 0xC3, CHR 0xA7, CHR 0xC4, CHR 0xB1]
        @ ''k Pozisyon Yok</h3>\<newline>                <p>Bot ba''
        @ [CHR 0xC5, CHR 0x9F]
        @ ''lat''
        @ [CHR 0xC4, CHR 0xB1]
        @ ''ld''
        @ [CHR 0xC4, CHR 0xB1, CHR 0xC4, CHR 0x9F, CHR 0xC4, CHR 0xB1]
        @ ''nda pozisyonlar burada g''
        @ [CHR 0xC3, CHR 0xB6]
        @ ''r''
        @ [CHR 0xC3, CHR 0xBC]
        @ ''necek</p>\<newline>            </div>\<newline>        '')\<close>

text \<open>
  One item of the list (lines 532 to 567). Reading a member of \<^verbatim>\<open>null\<close> or \<^verbatim>\<open>undefined\<close>
  throws, and so do \<^verbatim>\<open>toLowerCase\<close> and \<^verbatim>\<open>replace\<close> on anything but a string.
\<close>

definition positionItem :: "prims \<Rightarrow> jsval \<Rightarrow> error + string" where
  \<open>positionItem P position =
     (case get_prop position ''unrealizedPnl'' of
        Inl err \<Rightarrow> Inl err
      | Inr pnl \<Rightarrow>
          (case get_opt position ''positionSide'' of
             Str side \<Rightarrow>
               (case get_opt position ''symbol'' of
                  Str symbol \<Rightarrow>
                    (let pnlClass = (if num_ge (to_number P pnl) 0 then ''profit'' else ''loss'');
                         sideClass = toLowerCase P side
                     in Inr (''\<newline>            <div class="position-item">\<newline>                <div class="position-header">\<newline>                    <span class="position-symbol">''
        @ symbol
        @ ''</span>\<newline>                    <span class="position-side ''
        @ sideClass
        @ ''">''
        @ side
        @ ''</span>\<newline>                </div>\<newline>                <div class="position-stats">\<newline>                    <div class="position-stat">\<newline>                        <div class="stat-label">Boyut</div>\<newline>                        <div class="stat-value">''
        @ toStr P (Num (num_abs (to_number P (get_opt position ''positionAmt''))))
        @ '' ''
        @ replace_first ''USDT'' [] symbol
        @ ''</div>\<newline>                    </div>\<newline>                    <div class="position-stat">\<newline>                        <div class="stat-label">Giri''
        @ [CHR 0xC5, CHR 0x9F]
        @ '' Fiyat''
        @ [CHR 0xC4, CHR 0xB1]
        @ ''</div>\<newline>                        <div class="stat-value">$''
        @ toFixed2 P (parseFloat P (get_opt position ''entryPrice''))
        @ ''</div>\<newline>                    </div>\<newline>                    <div class="position-stat">\<newline>                        <div class="stat-label">G''
        @ [CHR 0xC3, CHR 0xBC]
        @ ''ncel Fiyat</div>\<newline>                        <div class="stat-value">$''
        @ toFixed2 P (parseFloat P (get_opt position ''markPrice''))
        @ ''</div>\<newline>                    </div>\<newline>                    <div class="position-stat">\<newline>                        <div class="stat-label">P&L</div>\<newline>                        <div class="stat-value ''
        @ pnlClass
        @ ''">''
        @ formatCurrency P pnl ''USDT''
        @ ''</div>\<newline>                    </div>\<newline>                </div>\<newline>                <div class="position-actions">\<newline>                    <button class="btn btn-danger btn-sm" onclick="closePosition(''
        @ [CHR 0x27]
        @ symbol
        @ [CHR 0x27]
        @ '', ''
        @ [CHR 0x27]
        @ side
        @ [CHR 0x27]
        @ '')">\<newline>                        <i class="fas fa-times"></i> Pozisyonu Kapat\<newline>                    </button>\<newline>                </div>\<newline>            </div>\<newline>        ''))
                | other \<Rightarrow> Inl (TypeError ''position.symbol.replace is not a function''))
           | other \<Rightarrow> Inl (TypeError ''position.positionSide.toLowerCase is not a function'')))\<close>

text \<open>\<^verbatim>\<open>positions.map(...)\<close>: the items in order, up to the first one that throws.\<close>

fun positionItems :: "prims \<Rightarrow> jsval list \<Rightarrow> error + string list" where
  "positionItems P [] = Inr []"
| "positionItems P (position # rest) =
     (case positionItem P position of
        Inl err \<Rightarrow> Inl err
      | Inr item \<Rightarrow>
          (case positionItems P rest of
             Inl err \<Rightarrow> Inl err
           | Inr items \<Rightarrow> Inr (item # items)))"

definition updatePositions :: "prims \<Rightarrow> jsval \<Rightarrow> unit action" where
  "updatePositions P positions w =
     (if \<not> present w (ById ''positions-container'') then (Inr (), w)
      else if \<not> truthy positions \<or> get_opt positions ''length'' = Num (Fin 0) then
        (Inr (), set_prop (ById ''positions-container'') ''innerHTML'' (Str emptyStateHTML) w)
      else
        (case positions of
           Arr ps \<Rightarrow>
             (case positionItems P ps of
                Inl err \<Rightarrow> (Inl err, w)
              | Inr items \<Rightarrow>
                  (Inr (), set_prop (ById ''positions-container'') ''innerHTML'' (Str (concat items)) w))
         | other \<Rightarrow> (Inl (TypeError ''positions.map is not a function''), w)))"

subsection \<open>API connection status\<close>

text \<open>
  \<^verbatim>\<open>loadTradingPairs()\<close> is called without \<^verbatim>\<open>await\<close>: it runs beside whatever follows. The
  model records that it was started and does not follow it.
\<close>

definition spawn :: "string \<Rightarrow> world \<Rightarrow> world" where
  "spawn task w = w\<lparr>log := log w @ [Spawn task]\<rparr>"

definition showApiConnected :: "world \<Rightarrow> world" where
  \<open>showApiConnected w =
     spawn ''loadTradingPairs''
     (set_prop (ById ''status-message-text'') ''textContent''
        (Str (''Bot haz'' @ [CHR 0xC4, CHR 0xB1] @ ''r. Ayarlar'' @ [CHR 0xC4, CHR 0xB1] @ '' yap'' @ [CHR 0xC4, CHR 0xB1] @ ''land'' @ [CHR 0xC4, CHR 0xB1] @ ''r'' @ [CHR 0xC4, CHR 0xB1] @ ''p ba'' @ [CHR 0xC5, CHR 0x9F] @ ''latabilirsiniz.''))
     (set_prop (ById ''control-buttons'') ''style.display'' (Str ''grid'')
     (set_prop (ById ''trading-settings'') ''style.display'' (Str ''block'')
     (set_prop (ById ''manage-api-btn'') ''textContent'' (Str (''API Ayarlar'' @ [CHR 0xC4, CHR 0xB1] @ ''n'' @ [CHR 0xC4, CHR 0xB1] @ '' D'' @ [CHR 0xC3, CHR 0xBC] @ ''zenle''))
     (set_prop (ById ''manage-api-btn'') ''style.display'' (Str ''inline-flex'')
     (set_className (ById ''api-status-indicator'') [''api-status-indicator'', ''connected'']
     (set_prop (ById ''api-status-indicator'') ''innerHTML'' (Str (''\<newline>                <i class="fas fa-check-circle"></i>\<newline>                <span>API ba''
        @ [CHR 0xC4, CHR 0x9F]
        @ ''lant''
        @ [CHR 0xC4, CHR 0xB1]
        @ ''s''
        @ [CHR 0xC4, CHR 0xB1]
        @ '' aktif</span>\<newline>            '')) w)))))))\<close>

definition showApiError :: "jsval \<Rightarrow> world \<Rightarrow> world" where
  \<open>showApiError apiStatus w =
     set_prop (ById ''status-message-text'') ''textContent''
        (js_or (get_opt apiStatus ''message'') (Str (''API ba'' @ [CHR 0xC4, CHR 0x9F] @ ''lant'' @ [CHR 0xC4, CHR 0xB1] @ '' hatas'' @ [CHR 0xC4, CHR 0xB1])))
     (set_prop (ById ''manage-api-btn'') ''textContent'' (Str (''API Anahtarlar'' @ [CHR 0xC4, CHR 0xB1] @ ''n'' @ [CHR 0xC4, CHR 0xB1] @ '' D'' @ [CHR 0xC3, CHR 0xBC] @ ''zenle''))
     (set_prop (ById ''manage-api-btn'') ''style.display'' (Str ''inline-flex'')
     (set_className (ById ''api-status-indicator'') [''api-status-indicator'', ''error'']
     (set_prop (ById ''api-status-indicator'') ''innerHTML'' (Str (''\<newline>                <i class="fas fa-times-circle"></i>\<newline>                <span>API ba''
        @ [CHR 0xC4, CHR 0x9F]
        @ ''lant''
        @ [CHR 0xC4, CHR 0xB1]
        @ '' hatas''
        @ [CHR 0xC4, CHR 0xB1]
        @ ''</span>\<newline>            '')) w))))\<close>

definition showApiMissing :: "world \<Rightarrow> world" where
  \<open>showApiMissing w =
     set_prop (ById ''status-message-text'') ''textContent''
        (Str (''Bot'' @ [CHR 0x27] @ ''u '' @ [CHR 0xC3, CHR 0xA7] @ ''al'' @ [CHR 0xC4, CHR 0xB1, CHR 0xC5, CHR 0x9F] @ ''t'' @ [CHR 0xC4, CHR 0xB1] @ ''rmak i'' @ [CHR 0xC3, CHR 0xA7] @ ''in API anahtarlar'' @ [CHR 0xC4, CHR 0xB1] @ ''n'' @ [CHR 0xC4, CHR 0xB1] @ ''z'' @ [CHR 0xC4, CHR 0xB1] @ '' eklemelisiniz.''))
     (set_prop (ById ''manage-api-btn'') ''textContent'' (Str (''API Anahtarlar'' @ [CHR 0xC4, CHR 0xB1] @ ''n'' @ [CHR 0xC4, CHR 0xB1] @ '' Ekle''))
     (set_prop (ById ''manage-api-btn'') ''style.display'' (Str ''inline-flex'')
     (set_className (ById ''api-status-indicator'') [''api-status-indicator'', ''error'']
     (set_prop (ById ''api-status-indicator'') ''innerHTML'' (Str (''\<newline>                <i class="fas fa-exclamation-triangle"></i>\<newline>                <span>API anahtarlar''
        @ [CHR 0xC4, CHR 0xB1]
        @ '' gerekli</span>\<newline>            '')) w))))\<close>

definition updateApiStatus :: "jsval \<Rightarrow> unit action" where
  "updateApiStatus apiStatus =
     andThen (expr (get_prop apiStatus ''hasApiKeys''))
       (\<lambda>hasApiKeys.
          if truthy hasApiKeys \<and> truthy (get_opt apiStatus ''isConnected'') then effect showApiConnected
          else if truthy hasApiKeys \<and> \<not> truthy (get_opt apiStatus ''isConnected'')
               then effect (showApiError apiStatus)
          else effect showApiMissing)"

section \<open>Loading the dashboard\<close>

definition placeholderProfile :: jsval where
  \<open>placeholderProfile =
     Obj [(''email'', Str (''Kullan'' @ [CHR 0xC4, CHR 0xB1] @ ''c'' @ [CHR 0xC4, CHR 0xB1])), (''subscription'', Obj [(''status'', Str ''trial'')])]\<close>

definition placeholderStats :: jsval where
  "placeholderStats =
     Obj [(''totalTrades'', Num (Fin 0)), (''totalPnl'', Num (Fin 0)), (''winRate'', Num (Fin 0))]"

text \<open>The text of the warning toast of line 449.\<close>

definition limitedModeMessage :: string where
  "limitedModeMessage = (''Temel veriler y'' @ [CHR 0xC3, CHR 0xBC] @ ''klendi (s'' @ [CHR 0xC4, CHR 0xB1] @ ''n'' @ [CHR 0xC4, CHR 0xB1] @ ''rl'' @ [CHR 0xC4, CHR 0xB1] @ '' mod)'')"

text \<open>The \<^verbatim>\<open>try\<close> block of \<^verbatim>\<open>loadFallbackData\<close> (lines 441 to 449).\<close>

definition fallbackFetches :: "env \<Rightarrow> prims \<Rightarrow> unit action" where
  \<open>fallbackFetches e P =
     andThen (makeAuthenticatedApiCall e ''/api/user/profile'' no_options)
       (\<lambda>profile. andThen (updateProfile P profile)
          (\<lambda>u. andThen (makeAuthenticatedApiCall e ''/api/user/stats'' no_options)
             (\<lambda>stats. andThen (updateStats P stats)
                (\<lambda>u. showNotification limitedModeMessage ''warning'' 5000))))\<close>

text \<open>Its \<^verbatim>\<open>catch\<close> block (lines 451 to 456).\<close>

definition showPlaceholders :: "prims \<Rightarrow> unit action" where
  "showPlaceholders P =
     andThen (updateProfile P placeholderProfile) (\<lambda>u. updateStats P placeholderStats)"

definition loadFallbackData :: "env \<Rightarrow> prims \<Rightarrow> unit action" where
  "loadFallbackData e P = tryCatch (fallbackFetches e P) (\<lambda>err. showPlaceholders P)"

text \<open>
  The \<^verbatim>\<open>try\<close> block of \<^verbatim>\<open>loadAllDashboardData\<close> (lines 409 to 422); after \<^verbatim>\<open>data.profile\<close> was
  read, reading the other members of \<^verbatim>\<open>data\<close> cannot throw.
\<close>

definition renderDashboard :: "prims \<Rightarrow> jsval \<Rightarrow> unit action" where
  \<open>renderDashboard P data =
     andThen (expr (get_prop data ''profile''))
       (\<lambda>profile. andThen (updateProfile P profile)
          (\<lambda>u. andThen (updateAccount P (get_opt data ''account''))
             (\<lambda>u. andThen (updatePositions P (get_opt data ''positions''))
                (\<lambda>u. andThen (updateStats P (get_opt data ''stats''))
                   (\<lambda>u. andThen (updateApiStatus (get_opt data ''api_status''))
                      (\<lambda>u. showNotification (''Dashboard ba'' @ [CHR 0xC5, CHR 0x9F] @ ''ar'' @ [CHR 0xC4, CHR 0xB1] @ ''yla y'' @ [CHR 0xC3, CHR 0xBC] @ ''klendi!'') ''success'' 2000))))))\<close>

definition aggregateLoad :: "env \<Rightarrow> prims \<Rightarrow> unit action" where
  "aggregateLoad e P =
     andThen (makeAuthenticatedApiCall e ''/api/user/dashboard-data'' no_options) (renderDashboard P)"

text \<open>
  Its \<^verbatim>\<open>catch\<close> block (lines 424 to 434): the error toast, then the fallback, whose own
  failure is logged and dropped. The toast is shown outside the inner \<^verbatim>\<open>try\<close>, so an
  exception of \<^verbatim>\<open>showNotification\<close> leaves the function before the fallback.
\<close>

definition loadFailedMessage :: string where
  "loadFailedMessage = (''Dashboard verileri y'' @ [CHR 0xC3, CHR 0xBC] @ ''klenirken hata olu'' @ [CHR 0xC5, CHR 0x9F] @ ''tu'')"

definition loadAllDashboardData :: "env \<Rightarrow> prims \<Rightarrow> unit action" where
  "loadAllDashboardData e P =
     tryCatch (aggregateLoad e P)
       (\<lambda>err. andThen (showNotification loadFailedMessage ''error'' 5000)
          (\<lambda>u. tryCatch (loadFallbackData e P) (\<lambda>fallbackError. ret ())))"

section \<open>Bot status and the polling callbacks\<close>

definition showBotStatus :: "jsval \<Rightarrow> world \<Rightarrow> world" where
  \<open>showBotStatus st w =
     (if truthy st \<and> truthy (get_opt st ''is_running'') then
        set_prop (ById ''stop-bot-btn'') ''disabled'' (Bool False)
        (set_prop (ById ''start-bot-btn'') ''disabled'' (Bool True)
        (set_prop (ById ''status-message-text'') ''textContent''
           (js_or (get_opt st ''status_message'') (Str (''Bot aktif olarak '' @ [CHR 0xC3, CHR 0xA7] @ ''al'' @ [CHR 0xC4, CHR 0xB1, CHR 0xC5, CHR 0x9F, CHR 0xC4, CHR 0xB1] @ ''yor'')))
        (set_prop (ById ''status-text'') ''textContent'' (Str ([CHR 0xC3, CHR 0x87] @ ''al'' @ [CHR 0xC4, CHR 0xB1, CHR 0xC5, CHR 0x9F, CHR 0xC4, CHR 0xB1] @ ''yor''))
        (set_className (ById ''status-dot'') [''status-dot'', ''active''] w))))
      else
        set_prop (ById ''stop-bot-btn'') ''disabled'' (Bool True)
        (set_prop (ById ''start-bot-btn'') ''disabled'' (Bool False)
        (set_prop (ById ''status-message-text'') ''textContent''
           (js_or (get_opt st ''status_message'') (Str ''Bot durduruldu''))
        (set_prop (ById ''status-text'') ''textContent'' (Str ''Durduruldu'')
        (set_className (ById ''status-dot'') [''status-dot''] w)))))\<close>

text \<open>\<^verbatim>\<open>getBotStatus\<close> catches whatever its body throws, so it returns only a new page state.\<close>

definition getBotStatus :: "env \<Rightarrow> world \<Rightarrow> world" where
  "getBotStatus e w =
     snd (tryCatch
            (andThen (makeAuthenticatedApiCall e ''/api/bot/status'' no_options)
               (\<lambda>response. andThen (expr (get_prop response ''status''))
                  (\<lambda>st. effect (showBotStatus st))))
            (\<lambda>err. ret ()) w)"

text \<open>
  The callback of the polling timer (lines 1135 to 1148); \<open>now\<close> is what
  \<^verbatim>\<open>new Date().getMinutes()\<close> returns when line 1141 runs.
\<close>

definition periodicTick :: "env \<Rightarrow> prims \<Rightarrow> nat \<Rightarrow> world \<Rightarrow> world" where
  "periodicTick e P now w =
     snd (tryCatch
            (andThen (effect (getBotStatus e))
               (\<lambda>u. if now mod 5 = 0 then loadAllDashboardData e P else ret ()))
            (\<lambda>err. ret ()) w)"

text \<open>The callback of the token timer (lines 98 to 105): a failure is logged and dropped.\<close>

definition tokenRefreshTick :: "env \<Rightarrow> world \<Rightarrow> world" where
  "tokenRefreshTick e w = snd (getFreshToken e w)"

section \<open>Action handlers\<close>

definition value_of :: "world \<Rightarrow> string \<Rightarrow> jsval" where
  "value_of w i = (case getElementById w i of None \<Rightarrow> Undefined | Some el \<Rightarrow> props el ''value'')"

definition checked_of :: "world \<Rightarrow> string \<Rightarrow> jsval" where
  "checked_of w i = (case getElementById w i of None \<Rightarrow> Undefined | Some el \<Rightarrow> Bool (checked el))"

text \<open>The object of lines 774 to 785, read from the form.\<close>

definition botConfig :: "prims \<Rightarrow> world \<Rightarrow> jsval" where
  "botConfig P w =
     Obj [(''symbol'', js_or (value_of w ''symbol-select'') (Str ''BTCUSDT'')),
          (''timeframe'', js_or (value_of w ''timeframe-select'') (Str ''15m'')),
          (''leverage'', Num (parseInt P (js_or (value_of w ''leverage-select'') (Str ''10'')))),
          (''order_size'', Num (parseFloat P (js_or (value_of w ''order-size'') (Str ''35'')))),
          (''stop_loss'', Num (parseFloat P (js_or (value_of w ''stop-loss'') (Str ''0.8'')))),
          (''take_profit'', Num (parseFloat P (js_or (value_of w ''take-profit'') (Str ''1.2'')))),
          (''max_daily_trades'', Num (parseInt P (js_or (value_of w ''max-daily-trades'') (Str ''10'')))),
          (''auto_compound'', js_or (checked_of w ''auto-compound'') (Bool False)),
          (''manual_trading'', js_or (checked_of w ''manual-trading'') (Bool False)),
          (''notifications_enabled'', js_or (checked_of w ''notifications-enabled'') (Bool True))]"

definition post :: "jsval option \<Rightarrow> fetch_options" where
  "post b = \<lparr>http_method = Some ''POST'', body = b, headers = []\<rparr>"

definition startBotBusy :: "world \<Rightarrow> world" where
  \<open>startBotBusy w =
     set_prop (ById ''status-message-text'') ''textContent'' (Str (''Bot ba'' @ [CHR 0xC5, CHR 0x9F] @ ''lat'' @ [CHR 0xC4, CHR 0xB1] @ ''l'' @ [CHR 0xC4, CHR 0xB1] @ ''yor...''))
     (set_prop (ById ''start-bot-btn'') ''innerHTML''
        (Str (''<i class="fas fa-spinner fa-spin"></i> Ba'' @ [CHR 0xC5, CHR 0x9F] @ ''lat'' @ [CHR 0xC4, CHR 0xB1] @ ''l'' @ [CHR 0xC4, CHR 0xB1] @ ''yor...''))
     (set_prop (ById ''start-bot-btn'') ''disabled'' (Bool True) w))\<close>

definition startBotReset :: "world \<Rightarrow> world" where
  \<open>startBotReset w =
     set_prop (ById ''start-bot-btn'') ''innerHTML'' (Str (''<i class="fas fa-play"></i> Bot'' @ [CHR 0x27] @ ''u Ba'' @ [CHR 0xC5, CHR 0x9F] @ ''lat''))
     (set_prop (ById ''start-bot-btn'') ''disabled'' (Bool False) w)\<close>

text \<open>The request of \<^verbatim>\<open>startBot\<close> (lines 789 to 792), with the configuration read at that moment.\<close>

definition sendStart :: "env \<Rightarrow> prims \<Rightarrow> jsval action" where
  "sendStart e P w = makeAuthenticatedApiCall e ''/api/bot/start'' (post (Some (botConfig P w))) w"

definition startBot :: "env \<Rightarrow> prims \<Rightarrow> unit action" where
  \<open>startBot e P =
     tryCatch
       (andThen (effect startBotBusy)
          (\<lambda>u. andThen (sendStart e P)
             (\<lambda>response. andThen (expr (get_prop response ''success''))
                (\<lambda>success.
                   if truthy success then
                     andThen (showNotification (''Bot ba'' @ [CHR 0xC5, CHR 0x9F] @ ''ar'' @ [CHR 0xC4, CHR 0xB1] @ ''yla ba'' @ [CHR 0xC5, CHR 0x9F] @ ''lat'' @ [CHR 0xC4, CHR 0xB1] @ ''ld'' @ [CHR 0xC4, CHR 0xB1] @ ''!'') ''success'' 5000)
                       (\<lambda>u. andThen (effect (getBotStatus e)) (\<lambda>u. effect startPeriodicUpdates))
                   else throw (Error (toStr P (js_or (get_opt response ''message'')
                                                 (Str (''Bot ba'' @ [CHR 0xC5, CHR 0x9F] @ ''lat'' @ [CHR 0xC4, CHR 0xB1] @ ''lamad'' @ [CHR 0xC4, CHR 0xB1])))))))))
       (\<lambda>err. andThen (showNotification ((''Bot ba'' @ [CHR 0xC5, CHR 0x9F] @ ''latma hatas'' @ [CHR 0xC4, CHR 0xB1] @ '': '') @ message_of err) ''error'' 5000)
          (\<lambda>u. effect startBotReset))\<close>

definition stopBotBusy :: "world \<Rightarrow> world" where
  \<open>stopBotBusy w =
     set_prop (ById ''status-message-text'') ''textContent'' (Str ''Bot durduruluyor...'')
     (set_prop (ById ''stop-bot-btn'') ''innerHTML''
        (Str ''<i class="fas fa-spinner fa-spin"></i> Durduruluyor...'')
     (set_prop (ById ''stop-bot-btn'') ''disabled'' (Bool True) w))\<close>

definition stopBotReset :: "world \<Rightarrow> world" where
  \<open>stopBotReset w =
     set_prop (ById ''stop-bot-btn'') ''innerHTML'' (Str (''<i class="fas fa-stop"></i> Bot'' @ [CHR 0x27] @ ''u Durdur''))
     (set_prop (ById ''stop-bot-btn'') ''disabled'' (Bool False) w)\<close>

definition stopBot :: "env \<Rightarrow> prims \<Rightarrow> unit action" where
  \<open>stopBot e P =
     tryCatch
       (andThen (effect stopBotBusy)
          (\<lambda>u. andThen (makeAuthenticatedApiCall e ''/api/bot/stop'' (post None))
             (\<lambda>response. andThen (expr (get_prop response ''success''))
                (\<lambda>success.
                   if truthy success then
                     andThen (showNotification (''Bot ba'' @ [CHR 0xC5, CHR 0x9F] @ ''ar'' @ [CHR 0xC4, CHR 0xB1] @ ''yla durduruldu!'') ''success'' 5000)
                       (\<lambda>u. andThen (effect (getBotStatus e)) (\<lambda>u. effect stopPeriodicUpdates))
                   else throw (Error (toStr P (js_or (get_opt response ''message'')
                                                 (Str (''Bot durdurulamad'' @ [CHR 0xC4, CHR 0xB1])))))))))
       (\<lambda>err. andThen (showNotification ((''Bot durdurma hatas'' @ [CHR 0xC4, CHR 0xB1] @ '': '') @ message_of err) ''error'' 5000)
          (\<lambda>u. effect stopBotReset))\<close>

text \<open>
  \<^verbatim>\<open>closePosition\<close>: the arguments are the two strings the position item's button passes.
  \<open>sendClose\<close> is everything after the confirmation (lines 859 to 878).
\<close>

definition sendClose :: "env \<Rightarrow> prims \<Rightarrow> string \<Rightarrow> string \<Rightarrow> unit action" where
  \<open>sendClose e P symbol positionSide =
     tryCatch
       (andThen (makeAuthenticatedApiCall e ''/api/user/close-position''
                   (post (Some (Obj [(''symbol'', Str symbol), (''positionSide'', Str positionSide)]))))
          (\<lambda>response. andThen (expr (get_prop response ''success''))
             (\<lambda>success.
                if truthy success then
                  andThen (showNotification (''Pozisyon ba'' @ [CHR 0xC5, CHR 0x9F] @ ''ar'' @ [CHR 0xC4, CHR 0xB1] @ ''yla kapat'' @ [CHR 0xC4, CHR 0xB1] @ ''ld'' @ [CHR 0xC4, CHR 0xB1] @ ''!'') ''success'' 5000)
                    (\<lambda>u. andThen (loadAllDashboardData e P) (\<lambda>u. effect (getBotStatus e)))
                else throw (Error (toStr P (js_or (get_opt response ''message'')
                                              (Str (''Pozisyon kapat'' @ [CHR 0xC4, CHR 0xB1] @ ''lamad'' @ [CHR 0xC4, CHR 0xB1]))))))))
       (\<lambda>err. showNotification ((''Pozisyon kapatma hatas'' @ [CHR 0xC4, CHR 0xB1] @ '': '') @ message_of err) ''error'' 5000)\<close>

definition closePrompt :: "string \<Rightarrow> string \<Rightarrow> string" where
  \<open>closePrompt symbol positionSide =
     symbol @ '' '' @ positionSide @ ('' pozisyonunu kapatmak istedi'' @ [CHR 0xC4, CHR 0x9F] @ ''inizden emin misiniz?'')\<close>

definition closePosition :: "env \<Rightarrow> prims \<Rightarrow> string \<Rightarrow> string \<Rightarrow> unit action" where
  "closePosition e P symbol positionSide w =
     (if \<not> confirmAnswer e (closePrompt symbol positionSide) then (Inr (), w)
      else sendClose e P symbol positionSide w)"

section \<open>Observing a run\<close>

text \<open>
  \<open>evolves Q w w'\<close>: from \<open>w\<close> to \<open>w'\<close> no element appeared or disappeared, and the log grew
  by events that all satisfy \<open>Q\<close>.
\<close>

definition evolves :: "(event \<Rightarrow> bool) \<Rightarrow> world \<Rightarrow> world \<Rightarrow> bool" where
  "evolves Q w w' =
     ((\<forall>n. present w' n = present w n) \<and> (\<exists>evs. log w' = log w @ evs \<and> list_all Q evs))"

definition stays :: "(world \<Rightarrow> world \<Rightarrow> bool) \<Rightarrow> 'a action \<Rightarrow> bool" where
  "stays R m = (\<forall>w. R w (snd (m w)))"

text \<open>
  \<open>requests_in S\<close>: the event is no \<^verbatim>\<open>fetch\<close>, or a \<^verbatim>\<open>fetch\<close> whose endpoint, method and
  body are in \<open>S\<close>.
\<close>

type_synonym request = "string \<times> string option \<times> jsval option"

definition requests_in :: "request set \<Rightarrow> event \<Rightarrow> bool" where
  "requests_in S ev =
     (case ev of Fetch ep opts \<Rightarrow> (ep, http_method opts, body opts) \<in> S | _ \<Rightarrow> True)"

definition request_of :: "string \<Rightarrow> fetch_options \<Rightarrow> request" where
  "request_of ep opts = (ep, http_method opts, body opts)"

definition fallbackRequests :: "request set" where
  "fallbackRequests = {(''/api/user/profile'', None, None), (''/api/user/stats'', None, None)}"

definition dashboardRequests :: "request set" where
  "dashboardRequests = insert (''/api/user/dashboard-data'', None, None) fallbackRequests"

definition statusRequests :: "request set" where
  "statusRequests = {(''/api/bot/status'', None, None)}"

text \<open>The events logged between two states of the page.\<close>

definition events_since :: "world \<Rightarrow> world \<Rightarrow> event list" where
  "events_since w w' = drop (length (log w)) (log w')"






definition closeRequest :: "string \<Rightarrow> string \<Rightarrow> fetch_options" where
  "closeRequest symbol positionSide =
     post (Some (Obj [(''symbol'', Str symbol), (''positionSide'', Str positionSide)]))"

text \<open>What \<^verbatim>\<open>startBot\<close> may request: the start with the configuration read from the form, and the bot status.\<close>

definition startRequests :: "prims \<Rightarrow> world \<Rightarrow> request set" where
  "startRequests P w =
     insert (''/api/bot/start'', Some ''POST'', Some (botConfig P (startBotBusy w))) statusRequests"

text \<open>The body of a request event.\<close>

definition request_body :: "event \<Rightarrow> jsval option" where
  "request_body ev = (case ev of Fetch ep opts \<Rightarrow> body opts | other \<Rightarrow> None)"

text \<open>\<open>repaints w w'\<close>: the two states differ in the DOM only.\<close>

definition repaints :: "world \<Rightarrow> world \<Rightarrow> bool" where
  "repaints w w' = (w' = w\<lparr>page := page w'\<rparr>)"

text \<open>The endpoints requested, in order.\<close>

definition fetched :: "event list \<Rightarrow> string list" where
  "fetched evs = concat (map (\<lambda>ev. case ev of Fetch ep opts \<Rightarrow> [ep] | other \<Rightarrow> []) evs)"



text \<open>The identity provider never hands out an empty token.\<close>

definition good_tokens :: "env \<Rightarrow> bool" where
  "good_tokens e = (\<forall>k t. idToken e k = Inr t \<longrightarrow> t \<noteq> [])"

text \<open>\<open>keeps_token w w'\<close>: a page that held a token still holds one.\<close>

definition keeps_token :: "world \<Rightarrow> world \<Rightarrow> bool" where
  "keeps_token w w' = (has_token w \<longrightarrow> has_token w')"

section \<open>Concrete inputs\<close>

text \<open>A server that answers every request with the same status, and a signed-in page.\<close>

definition resp_of_status :: "nat \<Rightarrow> response" where
  "resp_of_status n = \<lparr>status = n, contentType = None, jsonBody = Inr Null, textBody = Inr []\<rparr>"

definition env_always :: "nat \<Rightarrow> env" where
  "env_always n = \<lparr>idToken = (\<lambda>k. Inr ''tok1''),
     fetchOutcome = (\<lambda>k ep opts. Inr (resp_of_status n)),
     confirmAnswer = (\<lambda>m. False)\<rparr>"

definition world0 :: world where
  "world0 = \<lparr>currentUser = Some ''uid'', authToken = Some ''tok0'', tokenRefreshInterval = None,
     updateInterval = None, manualSL = False, manualTP = False, page = (\<lambda>n. None),
     timers = [], timerCount = 0, listeners = [], log = []\<rparr>"

definition blank :: element where
  "blank = \<lparr>props = (\<lambda>p. Undefined), classes = [], checked = False\<rparr>"

definition page_of :: "string list \<Rightarrow> dom" where
  "page_of ids n = (case n of ById i \<Rightarrow> if i \<in> set ids then Some blank else None | Query m q \<Rightarrow> None)"

definition form_world :: world where
  "form_world = world0\<lparr>page := page_of [''timeframe-select'', ''stop-loss'', ''take-profit'',
     ''sl-recommendation-btn'', ''tp-recommendation-btn'', ''use-sl-recommended'',
     ''use-tp-recommended'']\<rparr>"

text \<open>
  A stand-in for the number and string library, enough to run the model: numbers parse to
  themselves and everything else to NaN, strings print as themselves, and the formats are
  fixed texts.
\<close>

definition plain_prims :: prims where
  "plain_prims = \<lparr>strToNumber = (\<lambda>v. NaN),
     parseFloat = (\<lambda>v. case v of Num n \<Rightarrow> n | other \<Rightarrow> NaN),
     parseInt = (\<lambda>v. case v of Num n \<Rightarrow> n | other \<Rightarrow> NaN),
     toStr = (\<lambda>v. case v of Str s \<Rightarrow> s | other \<Rightarrow> ''?''),
     toFixed2 = (\<lambda>n. ''0.00''), toLocaleTR = (\<lambda>n. ''0,00''), toLowerCase = (\<lambda>s. s)\<rparr>"



definition env_declining :: env where
  "env_declining = (env_always 200)\<lparr>confirmAnswer := (\<lambda>m. False)\<rparr>"

definition env_confirming :: env where
  "env_confirming = (env_always 500)\<lparr>confirmAnswer := (\<lambda>m. True)\<rparr>"

text \<open>The settings form with the notifications checkbox, which is not checked.\<close>

definition unchecked_form :: world where
  "unchecked_form = world0\<lparr>page := page_of [''notifications-enabled'', ''start-bot-btn'']\<rparr>"




text \<open>
  A server that answers 401 while the identity provider rejects every refresh; fetched
  stats, and a server that refuses the dashboard data and serves the profile and the stats.
\<close>

definition env_expired :: env where
  "env_expired = (env_always 401)\<lparr>idToken := (\<lambda>k. Inl (Error ''auth/network-request-failed''))\<rparr>"



section \<open>Properties of the API client\<close>

lemma getFreshToken_cases:
  "getFreshToken e w = (Inl err, w') \<Longrightarrow>
     authToken w' = authToken w \<and> fetches (log w') = fetches (log w) \<and>
     length (refreshes (log w')) \<le> Suc (length (refreshes (log w)))"
  "getFreshToken e w = (Inr t, w') \<Longrightarrow>
     w' = w\<lparr>log := log w @ [GetIdToken], authToken := Some t\<rparr>"
  by (auto simp: getFreshToken_def Let_def fetches_def refreshes_def is_fetch_def
      split: option.splits sum.splits)

text \<open>
  C2. When the first \<^verbatim>\<open>fetch\<close> of a call returns a status outside 200..299 other than 401,
  the call fails with \<^verbatim>\<open>Error('HTTP <status>')\<close>, and the page is left as it was right after
  that request: no token refresh and no second request follow it.
\<close>

theorem non401_error_no_retry:
  assumes "ensureToken e w = (Inr (), w1)" and "has_token w1"
    and "doFetch e endpoint (mergeOptions w1 options) w1 = (Inr resp, w2)"
    and "\<not> ok resp" and "status resp \<noteq> 401"
  shows "makeAuthenticatedApiCall e endpoint options w =
           (Inl (Error (''HTTP '' @ string_of_nat (status resp))), w2)
    \<and> log w2 = log w1 @ [Fetch endpoint (mergeOptions w1 options)]
    \<and> refreshes (log w2) = refreshes (log w1)
    \<and> authToken w2 = authToken w1"
  using assms
  by (auto simp: makeAuthenticatedApiCall_def handleResponse_def doFetch_def Let_def refreshes_def)

theorem non401_error_no_retry_witness:
  "has_token world0 \<and> \<not> ok (resp_of_status 503) \<and> status (resp_of_status 503) \<noteq> 401 \<and>
   fst (makeAuthenticatedApiCall (env_always 503) ''/api/bot/status'' no_options world0)
     = Inl (Error ''HTTP 503'') \<and>
   log (snd (makeAuthenticatedApiCall (env_always 503) ''/api/bot/status'' no_options world0))
     = [Fetch ''/api/bot/status''
          \<lparr>http_method = None, body = None,
           headers = [(''Content-Type'', ''application/json''), (''Authorization'', ''Bearer tok0'')]\<rparr>]"
proof -
  let ?w2 = "world0\<lparr>log := [Fetch ''/api/bot/status'' (mergeOptions world0 no_options)]\<rparr>"
  have h1: "ensureToken (env_always 503) world0 = (Inr (), world0)"
    by (simp add: ensureToken_def has_token_def world0_def)
  have h2: "has_token world0"
    by (simp add: has_token_def world0_def)
  have h3: "doFetch (env_always 503) ''/api/bot/status'' (mergeOptions world0 no_options) world0
              = (Inr (resp_of_status 503), ?w2)"
    by (simp add: doFetch_def env_always_def world0_def)
  have h4: "\<not> ok (resp_of_status 503)" and h5: "status (resp_of_status 503) \<noteq> 401"
    by (simp_all add: ok_def resp_of_status_def)
  have m: "mergeOptions world0 no_options =
      \<lparr>http_method = None, body = None,
       headers = [(''Content-Type'', ''application/json''), (''Authorization'', ''Bearer tok0'')]\<rparr>"
    by (simp add: mergeOptions_def no_options_def spread_def token_text_def world0_def)
  have s: "string_of_nat 503 = ''503''"
    by code_simp
  from non401_error_no_retry [OF h1 h2 h3 h4 h5] h2 h4 h5 m s show ?thesis
    by (simp add: resp_of_status_def world0_def)
qed

lemma getFreshToken_failed:
  "getFreshToken e w = (Inl err, w') \<Longrightarrow>
     authToken w' = authToken w \<and>
     log w' = log w @ (if currentUser w = None then [] else [GetIdToken])"
  by (auto simp: getFreshToken_def Let_def split: option.splits sum.splits)

text \<open>
  C1. When the first \<^verbatim>\<open>fetch\<close> of a call returns 401, the client makes one attempt to
  refresh the token. When the attempt yields a token, the request is sent once more, with
  \<^verbatim>\<open>Authorization: Bearer <new token>\<close>: the call returns the decoded body when that retry
  gets a 2xx response whose body decodes, and fails with
  \<^verbatim>\<open>Error('Authentication failed - please login again')\<close> when the retry's \<^verbatim>\<open>fetch\<close>
  rejects, its status is outside 200..299 or its body does not decode. When the attempt
  fails (nobody is signed in, or the provider rejects), the request is not sent again and
  the call fails with the same error. At most one request and at most one call of the
  provider follow the first request.
\<close>

theorem unauthorized_refresh_then_one_retry:
  assumes "ensureToken e w = (Inr (), w1)" and "has_token w1"
    and "doFetch e endpoint (mergeOptions w1 options) w1 = (Inr resp, w2)"
    and "status resp = 401"
  shows "length (fetches (log (snd (makeAuthenticatedApiCall e endpoint options w))))
           \<le> Suc (length (fetches (log w2))) \<and>
    length (refreshes (log (snd (makeAuthenticatedApiCall e endpoint options w))))
           \<le> Suc (length (refreshes (log w2))) \<and>
    (case getFreshToken e w2 of
      (Inl err, w3) \<Rightarrow>
        makeAuthenticatedApiCall e endpoint options w = (Inl authFailed, w3) \<and>
        authToken w3 = authToken w2 \<and>
        log w3 = log w2 @ (if currentUser w2 = None then [] else [GetIdToken])
    | (Inr t, w3) \<Rightarrow>
        log w3 = log w2 @ [GetIdToken] \<and> authToken w3 = Some t \<and>
        (case doFetch e endpoint (retryOptionsFor (mergeOptions w1 options) t) w3 of
           (out, w4) \<Rightarrow>
             snd (makeAuthenticatedApiCall e endpoint options w) = w4 \<and>
             log w4 = log w2 @ [GetIdToken, Fetch endpoint (retryOptionsFor (mergeOptions w1 options) t)] \<and>
             map_of (headers (retryOptionsFor (mergeOptions w1 options) t)) ''Authorization''
               = Some (''Bearer '' @ t) \<and>
             fst (makeAuthenticatedApiCall e endpoint options w) =
               (case out of
                  Inl err \<Rightarrow> Inl authFailed
                | Inr retryResponse \<Rightarrow>
                    if ok retryResponse then
                      (case decodeBody retryResponse of
                         Inl err \<Rightarrow> Inl authFailed
                       | Inr v \<Rightarrow> Inr v)
                    else Inl authFailed)))"
proof (cases "getFreshToken e w2")
  case (Pair r w3)
  have nok: "\<not> ok resp" using assms(4) by (simp add: ok_def)
  have call: "makeAuthenticatedApiCall e endpoint options w
                = retryAfter401 e endpoint (mergeOptions w1 options) w2"
    using assms nok
    by (simp add: makeAuthenticatedApiCall_def handleResponse_def Let_def)
  show ?thesis
  proof (cases r)
    case (Inl err)
    with Pair getFreshToken_failed [of e w2 err w3] call show ?thesis
      by (simp add: retryAfter401_def retryBlock_def fetches_def refreshes_def is_fetch_def)
  next
    case (Inr t)
    with Pair have w3: "w3 = w2\<lparr>log := log w2 @ [GetIdToken], authToken := Some t\<rparr>"
      using getFreshToken_cases(2) by simp
    have hdr: "map_of (headers (retryOptionsFor (mergeOptions w1 options) t)) ''Authorization''
                 = Some (''Bearer '' @ t)"
      by (simp add: retryOptionsFor_def update_conv')
    from Pair Inr w3 call hdr show ?thesis
      by (auto simp: retryAfter401_def retryBlock_def doFetch_def Let_def token_text_def
            retryOptionsFor_def fetches_def refreshes_def is_fetch_def split: sum.splits prod.splits)
  qed
qed

theorem unauthorized_refresh_then_one_retry_witness:
  "has_token world0 \<and> status (resp_of_status 401) = 401 \<and>
   fst (makeAuthenticatedApiCall (env_always 401) ''/api/bot/status'' no_options world0)
     = Inl (Error ''Authentication failed - please login again'') \<and>
   log (snd (makeAuthenticatedApiCall (env_always 401) ''/api/bot/status'' no_options world0))
     = [Fetch ''/api/bot/status''
          \<lparr>http_method = None, body = None,
           headers = [(''Content-Type'', ''application/json''), (''Authorization'', ''Bearer tok0'')]\<rparr>,
        GetIdToken,
        Fetch ''/api/bot/status''
          \<lparr>http_method = None, body = None,
           headers = [(''Content-Type'', ''application/json''), (''Authorization'', ''Bearer tok1'')]\<rparr>] \<and>
   makeAuthenticatedApiCall env_expired ''/api/bot/status'' no_options world0
     = (Inl (Error ''Authentication failed - please login again''),
        world0\<lparr>log := [Fetch ''/api/bot/status''
          \<lparr>http_method = None, body = None,
           headers = [(''Content-Type'', ''application/json''), (''Authorization'', ''Bearer tok0'')]\<rparr>,
        GetIdToken]\<rparr>)"
proof -
  let ?w2 = "world0\<lparr>log := [Fetch ''/api/bot/status'' (mergeOptions world0 no_options)]\<rparr>"
  have h1: "ensureToken e world0 = (Inr (), world0)" for e
    by (simp add: ensureToken_def has_token_def world0_def)
  have h2: "has_token world0"
    by (simp add: has_token_def world0_def)
  have h3: "doFetch (env_always 401) ''/api/bot/status'' (mergeOptions world0 no_options) world0
              = (Inr (resp_of_status 401), ?w2)"
    by (simp add: doFetch_def env_always_def world0_def)
  have h3': "doFetch env_expired ''/api/bot/status'' (mergeOptions world0 no_options) world0
              = (Inr (resp_of_status 401), ?w2)"
    by (simp add: doFetch_def env_expired_def env_always_def world0_def)
  have h4: "status (resp_of_status 401) = 401"
    by (simp add: resp_of_status_def)
  have m: "mergeOptions world0 no_options =
      \<lparr>http_method = None, body = None,
       headers = [(''Content-Type'', ''application/json''), (''Authorization'', ''Bearer tok0'')]\<rparr>"
    by (simp add: mergeOptions_def no_options_def spread_def token_text_def world0_def)
  have g: "getFreshToken (env_always 401) ?w2
             = (Inr ''tok1'', ?w2\<lparr>log := log ?w2 @ [GetIdToken], authToken := Some ''tok1''\<rparr>)"
    by (simp add: getFreshToken_def env_always_def world0_def refreshes_def)
  have g': "getFreshToken env_expired ?w2
             = (Inl (Error ''auth/network-request-failed''), ?w2\<lparr>log := log ?w2 @ [GetIdToken]\<rparr>)"
    by (simp add: getFreshToken_def env_expired_def env_always_def world0_def refreshes_def)
  from unauthorized_refresh_then_one_retry [OF h1 h2 h3 h4] h2 h4 m g
  have a: "fst (makeAuthenticatedApiCall (env_always 401) ''/api/bot/status'' no_options world0)
     = Inl (Error ''Authentication failed - please login again'') \<and>
   log (snd (makeAuthenticatedApiCall (env_always 401) ''/api/bot/status'' no_options world0))
     = [Fetch ''/api/bot/status''
          \<lparr>http_method = None, body = None,
           headers = [(''Content-Type'', ''application/json''), (''Authorization'', ''Bearer tok0'')]\<rparr>,
        GetIdToken,
        Fetch ''/api/bot/status''
          \<lparr>http_method = None, body = None,
           headers = [(''Content-Type'', ''application/json''), (''Authorization'', ''Bearer tok1'')]\<rparr>]"
    by (simp add: doFetch_def env_always_def resp_of_status_def ok_def authFailed_def
          retryOptionsFor_def fetches_def is_fetch_def world0_def)
  from unauthorized_refresh_then_one_retry [OF h1 h2 h3' h4] m g'
  have b: "makeAuthenticatedApiCall env_expired ''/api/bot/status'' no_options world0
     = (Inl (Error ''Authentication failed - please login again''),
        world0\<lparr>log := [Fetch ''/api/bot/status''
          \<lparr>http_method = None, body = None,
           headers = [(''Content-Type'', ''application/json''), (''Authorization'', ''Bearer tok0'')]\<rparr>,
        GetIdToken]\<rparr>)"
    by (simp add: authFailed_def world0_def)
  from a b h2 h4 show ?thesis by blast
qed

text \<open>
  C1 as stated fails: here the server answers the first request with 401 and the provider
  rejects the refresh. No fresh token is obtained and the request is not sent again: the
  call fails after one request, with the old token still cached.
\<close>

theorem refresh_failure_no_retry_counterexample:
  "fst (doFetch env_expired ''/api/bot/status'' (mergeOptions world0 no_options) world0)
     = Inr (resp_of_status 401) \<and>
   status (resp_of_status 401) = 401 \<and>
   fst (makeAuthenticatedApiCall env_expired ''/api/bot/status'' no_options world0)
     = Inl (Error ''Authentication failed - please login again'') \<and>
   log (snd (makeAuthenticatedApiCall env_expired ''/api/bot/status'' no_options world0))
     = [Fetch ''/api/bot/status'' (mergeOptions world0 no_options), GetIdToken] \<and>
   authToken (snd (makeAuthenticatedApiCall env_expired ''/api/bot/status'' no_options world0))
     = Some ''tok0''"
  by (simp add: makeAuthenticatedApiCall_def ensureToken_def has_token_def doFetch_def
        handleResponse_def retryAfter401_def retryBlock_def getFreshToken_def Let_def
        env_expired_def env_always_def resp_of_status_def ok_def authFailed_def world0_def
        fetches_def refreshes_def)

section \<open>Properties of the polling scheduler\<close>

lemma polling_clearInterval: "polling (clearInterval h w) = filter (\<lambda>x. x \<noteq> h) (polling w)"
  by (simp add: polling_def clearInterval_def filter_map comp_def) (metis (mono_tags, lifting) filter_cong)

lemma polling_setInterval:
  "polling (snd (setInterval PeriodicUpdate ms w)) = polling w @ [Suc (timerCount w)]"
  by (simp add: polling_def setInterval_def Let_def)

lemma polling_updateInterval: "polling (w\<lparr>updateInterval := v\<rparr>) = polling w"
  by (simp add: polling_def)

lemma issued_clearInterval: "issued w \<Longrightarrow> issued (clearInterval h w)"
  by (simp add: issued_def clearInterval_def list_all_iff)

lemma issued_setInterval: "issued w \<Longrightarrow> issued (snd (setInterval k ms w))"
  by (auto simp: issued_def setInterval_def Let_def list_all_iff)

lemma issued_updateInterval: "issued (w\<lparr>updateInterval := v\<rparr>) = issued w"
  by (simp add: issued_def)

lemma polling_agrees_iff:
  "polling_agrees w \<longleftrightarrow> issued w \<and> (case updateInterval w of None \<Rightarrow> polling w = [] | Some h \<Rightarrow> polling w = [h])"
  by (simp add: polling_agrees_def issued_def)

lemma polling_handle_issued:
  "issued w \<Longrightarrow> h \<in> set (polling w) \<Longrightarrow> h \<noteq> 0 \<and> h \<le> timerCount w"
  by (auto simp: issued_def polling_def list_all_iff)

lemma startPeriodicUpdates_unfold:
  "startPeriodicUpdates w =
     (snd (setInterval PeriodicUpdate 30000
        (if truthy_handle (updateInterval w) then clearInterval (the (updateInterval w)) w else w)))
     \<lparr>updateInterval := Some (Suc (timerCount w))\<rparr>"
  by (simp add: startPeriodicUpdates_def Let_def split_beta setInterval_def clearInterval_def)

lemma start_agrees:
  assumes "polling_agrees w"
  shows "polling_agrees (startPeriodicUpdates w)"
proof -
  let ?w1 = "if truthy_handle (updateInterval w) then clearInterval (the (updateInterval w)) w else w"
  from assms have i: "issued w"
    by (simp add: polling_agrees_iff)
  have nz: "updateInterval w = Some h \<Longrightarrow> h \<noteq> 0" for h
    using assms polling_handle_issued [OF i, of h] by (simp add: polling_agrees_iff)
  have p1: "polling ?w1 = []"
    using assms nz
    by (auto simp: polling_agrees_iff truthy_handle_def polling_clearInterval split: option.splits)
  have i1: "issued ?w1"
    using i by (simp add: issued_clearInterval)
  have c1: "timerCount ?w1 = timerCount w"
    by (simp add: clearInterval_def)
  show ?thesis
    unfolding startPeriodicUpdates_unfold polling_agrees_iff
    using p1 c1 issued_setInterval [OF i1]
    by (simp add: polling_updateInterval issued_updateInterval polling_setInterval)
qed

lemma stop_agrees:
  assumes "polling_agrees w"
  shows "polling_agrees (stopPeriodicUpdates w)"
proof -
  from assms have i: "issued w"
    by (simp add: polling_agrees_iff)
  have nz: "updateInterval w = Some h \<Longrightarrow> h \<noteq> 0" for h
    using assms polling_handle_issued [OF i, of h] by (simp add: polling_agrees_iff)
  show ?thesis
    using assms nz issued_clearInterval [OF i]
    by (auto simp: polling_agrees_iff stopPeriodicUpdates_def truthy_handle_def
          polling_clearInterval polling_updateInterval issued_updateInterval split: option.splits)
qed

lemma run_agrees: "polling_agrees w \<Longrightarrow> polling_agrees (scheduler_run calls w)"
  unfolding scheduler_run_def
proof (induction calls arbitrary: w)
  case Nil
  then show ?case by simp
next
  case (Cons c calls)
  then show ?case by (cases c) (simp_all add: start_agrees stop_agrees)
qed

text \<open>
  C4. From a page whose handle variable and timer table agree (as on a fresh page), any
  sequence of \<^verbatim>\<open>startPeriodicUpdates\<close> and \<^verbatim>\<open>stopPeriodicUpdates\<close> calls leaves them in
  agreement, so at most one polling timer is live. A start while a timer runs first
  clears the old handle, then sets the new interval of 30000 ms, and the new handle differs
  from the old one.
\<close>

theorem at_most_one_polling_timer:
  assumes "polling_agrees w"
  shows "polling_agrees (scheduler_run calls w) \<and>
         length (polling (scheduler_run calls w)) \<le> 1 \<and>
         (\<forall>h. updateInterval w = Some h \<longrightarrow>
            log (startPeriodicUpdates w) =
              log w @ [ClearInterval h, SetInterval (Suc (timerCount w)) PeriodicUpdate 30000] \<and>
            polling (startPeriodicUpdates w) = [Suc (timerCount w)] \<and>
            h \<noteq> Suc (timerCount w))"
proof -
  have inv: "polling_agrees (scheduler_run calls w)"
    using assms by (rule run_agrees)
  then have one: "length (polling (scheduler_run calls w)) \<le> 1"
    by (auto simp: polling_agrees_def split: option.splits)
  have i: "issued w"
    using assms by (simp add: polling_agrees_iff)
  have repl: "log (startPeriodicUpdates w) =
              log w @ [ClearInterval h, SetInterval (Suc (timerCount w)) PeriodicUpdate 30000] \<and>
            polling (startPeriodicUpdates w) = [Suc (timerCount w)] \<and>
            h \<noteq> Suc (timerCount w)" if h: "updateInterval w = Some h" for h
  proof -
    from assms h have ph: "polling w = [h]"
      by (simp add: polling_agrees_iff)
    then have b: "h \<noteq> 0 \<and> h \<le> timerCount w"
      using polling_handle_issued [OF i, of h] by simp
    from start_agrees [OF assms] have "polling (startPeriodicUpdates w) = [Suc (timerCount w)]"
      by (simp add: polling_agrees_iff startPeriodicUpdates_unfold polling_updateInterval)
    with h b show ?thesis
      by (simp add: startPeriodicUpdates_def truthy_handle_def clearInterval_def setInterval_def Let_def)
  qed
  from inv one repl show ?thesis by blast
qed

theorem at_most_one_polling_timer_witness:
  "polling_agrees (startPeriodicUpdates world0) \<and>
   updateInterval (startPeriodicUpdates world0) = Some 1 \<and>
   polling (scheduler_run [StartPeriodicUpdates, StopPeriodicUpdates, StartPeriodicUpdates]
              (startPeriodicUpdates world0)) = [3] \<and>
   log (startPeriodicUpdates (startPeriodicUpdates world0)) =
     [SetInterval 1 PeriodicUpdate 30000, ClearInterval 1, SetInterval 2 PeriodicUpdate 30000] \<and>
   polling (startPeriodicUpdates (startPeriodicUpdates world0)) = [2]"
proof -
  have w1: "startPeriodicUpdates world0 =
      world0\<lparr>timers := [(1, PeriodicUpdate, 30000)], timerCount := 1,
             log := [SetInterval 1 PeriodicUpdate 30000], updateInterval := Some 1\<rparr>"
    by (simp add: startPeriodicUpdates_def setInterval_def truthy_handle_def world0_def Let_def)
  have h: "polling_agrees (startPeriodicUpdates world0)"
    unfolding w1 by (simp add: polling_agrees_def polling_def world0_def)
  have u: "updateInterval (startPeriodicUpdates world0) = Some 1"
    by (simp add: w1)
  have r: "polling (scheduler_run [StartPeriodicUpdates, StopPeriodicUpdates, StartPeriodicUpdates]
              (startPeriodicUpdates world0)) = [3]"
    unfolding w1
    by (simp add: scheduler_run_def startPeriodicUpdates_def stopPeriodicUpdates_def
          setInterval_def clearInterval_def truthy_handle_def polling_def world0_def Let_def)
  from at_most_one_polling_timer [OF h, of "[]"] h u r show ?thesis
    unfolding w1 by (simp add: world0_def)
qed

section \<open>Properties of the recommendation engine\<close>

lemma update_element_fields:
  "manualSL (update_element n f w) = manualSL w"
  "manualTP (update_element n f w) = manualTP w"
  "listeners (update_element n f w) = listeners w"
  "log (update_element n f w) = log w"
  "present (update_element n f w) m = present w m"
  by (auto simp: update_element_def present_def split: option.splits)

lemma update_element_other: "m \<noteq> n \<Longrightarrow> page (update_element n f w) m = page w m"
  by (simp add: update_element_def split: option.splits)

lemma update_element_same: "page (update_element n f w) n = map_option f (page w n)"
  by (simp add: update_element_def split: option.splits)

lemmas dom_write_defs = set_prop_def set_className_def add_class_def remove_class_def

lemma dom_write_fields:
  "manualSL (set_prop n p v w) = manualSL w"
  "manualTP (set_prop n p v w) = manualTP w"
  "listeners (set_prop n p v w) = listeners w"
  "log (set_prop n p v w) = log w"
  "present (set_prop n p v w) m = present w m"
  "manualSL (set_className n cs w) = manualSL w"
  "manualTP (set_className n cs w) = manualTP w"
  "listeners (set_className n cs w) = listeners w"
  "log (set_className n cs w) = log w"
  "present (set_className n cs w) m = present w m"
  "manualSL (add_class n c w) = manualSL w"
  "manualTP (add_class n c w) = manualTP w"
  "listeners (add_class n c w) = listeners w"
  "log (add_class n c w) = log w"
  "present (add_class n c w) m = present w m"
  "manualSL (remove_class n c w) = manualSL w"
  "manualTP (remove_class n c w) = manualTP w"
  "listeners (remove_class n c w) = listeners w"
  "log (remove_class n c w) = log w"
  "present (remove_class n c w) m = present w m"
  by (simp_all add: dom_write_defs update_element_fields)

lemma dom_write_other:
  "m \<noteq> n \<Longrightarrow> page (set_prop n p v w) m = page w m"
  "m \<noteq> n \<Longrightarrow> page (set_className n cs w) m = page w m"
  "m \<noteq> n \<Longrightarrow> page (add_class n c w) m = page w m"
  "m \<noteq> n \<Longrightarrow> page (remove_class n c w) m = page w m"
  by (simp_all add: dom_write_defs update_element_other)

lemma prop_of_set_prop:
  "prop_of (set_prop n p v w) m q =
     (if m = n \<and> q = p \<and> present w n then v else prop_of w m q)"
  by (auto simp: prop_of_def set_prop_def update_element_def present_def split: option.splits)

lemma prop_of_class_writes:
  "prop_of (set_className n cs w) m q = prop_of w m q"
  "prop_of (add_class n c w) m q = prop_of w m q"
  "prop_of (remove_class n c w) m q = prop_of w m q"
  by (auto simp: prop_of_def dom_write_defs update_element_def split: option.splits)

lemma prop_of_page: "page w n = page w' n \<Longrightarrow> prop_of w n p = prop_of w' n p"
  by (simp add: prop_of_def)

lemma showStrategy_frame:
  "manualSL (showStrategy rec w) = manualSL w"
  "manualTP (showStrategy rec w) = manualTP w"
  "listeners (showStrategy rec w) = listeners w"
  "present (showStrategy rec w) m = present w m"
  by (simp_all add: showStrategy_def dom_write_fields)

lemma showStrategy_inputs:
  "page (showStrategy rec w) (ById ''stop-loss'') = page w (ById ''stop-loss'')"
  "page (showStrategy rec w) (ById ''take-profit'') = page w (ById ''take-profit'')"
  by (simp_all add: showStrategy_def dom_write_other)

lemma applyRecommendedSL_frame:
  "manualSL (applyRecommendedSL rec w) = manualSL w"
  "manualTP (applyRecommendedSL rec w) = manualTP w"
  "listeners (applyRecommendedSL rec w) = listeners w"
  "present (applyRecommendedSL rec w) m = present w m"
  "m \<noteq> ById ''stop-loss'' \<Longrightarrow> m \<noteq> ById ''sl-recommendation-btn'' \<Longrightarrow>
     page (applyRecommendedSL rec w) m = page w m"
  "manualSL w \<Longrightarrow> applyRecommendedSL rec w = w"
  by (simp_all add: applyRecommendedSL_def dom_write_fields dom_write_other)

lemma applyRecommendedTP_frame:
  "manualSL (applyRecommendedTP rec w) = manualSL w"
  "manualTP (applyRecommendedTP rec w) = manualTP w"
  "listeners (applyRecommendedTP rec w) = listeners w"
  "present (applyRecommendedTP rec w) m = present w m"
  "m \<noteq> ById ''take-profit'' \<Longrightarrow> m \<noteq> ById ''tp-recommendation-btn'' \<Longrightarrow>
     page (applyRecommendedTP rec w) m = page w m"
  "manualTP w \<Longrightarrow> applyRecommendedTP rec w = w"
  by (simp_all add: applyRecommendedTP_def dom_write_fields dom_write_other)

lemma applyRecommendedSL_value:
  "\<not> manualSL w \<Longrightarrow> present w (ById ''stop-loss'') \<Longrightarrow> present w (ById ''sl-recommendation-btn'') \<Longrightarrow>
     prop_of (applyRecommendedSL rec w) (ById ''stop-loss'') ''value'' = Num (Fin (stopLoss rec))"
  by (simp add: applyRecommendedSL_def prop_of_class_writes prop_of_set_prop)

lemma applyRecommendedTP_value:
  "\<not> manualTP w \<Longrightarrow> present w (ById ''take-profit'') \<Longrightarrow> present w (ById ''tp-recommendation-btn'') \<Longrightarrow>
     prop_of (applyRecommendedTP rec w) (ById ''take-profit'') ''value'' = Num (Fin (takeProfit rec))"
  by (simp add: applyRecommendedTP_def prop_of_class_writes prop_of_set_prop)

lemma updateStrategyInfo_frame:
  "manualSL (updateStrategyInfo tf w) = manualSL w"
  "manualTP (updateStrategyInfo tf w) = manualTP w"
  "listeners (updateStrategyInfo tf w) = listeners w"
  "present (updateStrategyInfo tf w) m = present w m"
  by (simp_all add: updateStrategyInfo_def showStrategy_frame applyRecommendedSL_frame
        applyRecommendedTP_frame split: option.splits)

lemma updateStrategyInfo_manualSL:
  "manualSL w \<Longrightarrow> page (updateStrategyInfo tf w) (ById ''stop-loss'') = page w (ById ''stop-loss'')"
  by (simp add: updateStrategyInfo_def showStrategy_frame showStrategy_inputs applyRecommendedSL_frame
        applyRecommendedTP_frame split: option.splits)

lemma updateStrategyInfo_manualTP:
  "manualTP w \<Longrightarrow> page (updateStrategyInfo tf w) (ById ''take-profit'') = page w (ById ''take-profit'')"
  by (simp add: updateStrategyInfo_def showStrategy_frame showStrategy_inputs applyRecommendedSL_frame
        applyRecommendedTP_frame split: option.splits)

lemma updateStrategyInfo_SL:
  assumes "timeframeRecommendations tf = Some rec" "\<not> manualSL w"
    "present w (ById ''stop-loss'')" "present w (ById ''sl-recommendation-btn'')"
  shows "prop_of (updateStrategyInfo tf w) (ById ''stop-loss'') ''value'' = Num (Fin (stopLoss rec))"
proof -
  let ?w1 = "applyRecommendedSL rec (showStrategy rec w)"
  have v: "prop_of ?w1 (ById ''stop-loss'') ''value'' = Num (Fin (stopLoss rec))"
    using assms by (simp add: applyRecommendedSL_value showStrategy_frame)
  have "page (applyRecommendedTP rec ?w1) (ById ''stop-loss'') = page ?w1 (ById ''stop-loss'')"
    by (simp add: applyRecommendedTP_frame)
  then have "prop_of (applyRecommendedTP rec ?w1) (ById ''stop-loss'') ''value''
               = prop_of ?w1 (ById ''stop-loss'') ''value''"
    by (rule prop_of_page)
  with v assms(1) show ?thesis
    by (simp add: updateStrategyInfo_def)
qed

lemma updateStrategyInfo_TP:
  assumes "timeframeRecommendations tf = Some rec" "\<not> manualTP w"
    "present w (ById ''take-profit'')" "present w (ById ''tp-recommendation-btn'')"
  shows "prop_of (updateStrategyInfo tf w) (ById ''take-profit'') ''value'' = Num (Fin (takeProfit rec))"
  using assms
  by (simp add: updateStrategyInfo_def applyRecommendedTP_value applyRecommendedSL_frame showStrategy_frame)

lemma funpow_keeps:
  assumes "\<And>w. P w \<Longrightarrow> P (f w)" and "P w"
  shows "P ((f ^^ k) w)"
  using assms by (induction k) simp_all

lemma funpow_last:
  assumes "\<And>w. P w \<Longrightarrow> P (f w)" and "\<And>w. P w \<Longrightarrow> Q (f w)" and "P w" and "0 < k"
  shows "Q ((f ^^ k) w)"
proof (cases k)
  case 0
  with assms(4) show ?thesis by simp
next
  case (Suc j)
  have "P ((f ^^ j) w)" using assms(1,3) by (rule funpow_keeps)
  then show ?thesis using assms(2) Suc by simp
qed

lemma run_listeners_keeps:
  assumes "\<And>w. P w \<Longrightarrow> P (f w)" and "P w"
  shows "P (run_listeners l f w)"
  unfolding run_listeners_def using assms by (rule funpow_keeps)

lemma run_listeners_last:
  assumes "\<And>w. P w \<Longrightarrow> P (f w)" and "\<And>w. P w \<Longrightarrow> Q (f w)" and "P w"
    and "l \<in> set (listeners w)"
  shows "Q (run_listeners l f w)"
  unfolding run_listeners_def using assms(1,2,3)
proof (rule funpow_last)
  show "0 < count_list (listeners w) l"
    using assms(4) count_list_0_iff [of "listeners w" l] by simp
qed

lemma onSLInput_frame:
  "manualSL (onSLInput w)"
  "manualTP (onSLInput w) = manualTP w"
  "listeners (onSLInput w) = listeners w"
  by (simp_all add: onSLInput_def dom_write_fields)

lemma onTPInput_frame:
  "manualTP (onTPInput w)"
  "manualSL (onTPInput w) = manualSL w"
  "listeners (onTPInput w) = listeners w"
  by (simp_all add: onTPInput_def dom_write_fields)

lemma onSLRecommendationClick_frame:
  "manualTP (onSLRecommendationClick w) = manualTP w"
  by (simp add: onSLRecommendationClick_def dom_write_fields split: option.splits)

lemma onTPRecommendationClick_frame:
  "manualSL (onTPRecommendationClick w) = manualSL w"
  by (simp add: onTPRecommendationClick_def dom_write_fields split: option.splits)

lemma clickSLRecommendation_frame:
  "manualTP w \<Longrightarrow> manualTP (clickSLRecommendation w)"
  unfolding clickSLRecommendation_def
  by (simp add: run_listeners_keeps [where P = manualTP] onSLRecommendationClick_frame)

lemma clickTPRecommendation_frame:
  "manualSL w \<Longrightarrow> manualSL (clickTPRecommendation w)"
  unfolding clickTPRecommendation_def
  by (simp add: run_listeners_keeps [where P = manualSL] onTPRecommendationClick_frame)

lemma act_keeps_manualSL:
  assumes "manualSL w" and "a \<noteq> ClickSLRecommendation" and "a \<noteq> ClickUseSLRecommended"
  shows "manualSL (act a w)"
proof (cases a)
  case (SelectTimeframe tf)
  with assms(1) show ?thesis
    by (simp add: run_listeners_keeps [where P = manualSL] updateStrategyInfo_frame dom_write_fields)
next
  case (EditStopLoss typed)
  with assms(1) show ?thesis
    by (simp add: run_listeners_keeps [where P = manualSL] onSLInput_frame dom_write_fields)
next
  case (EditTakeProfit typed)
  with assms(1) show ?thesis
    by (simp add: run_listeners_keeps [where P = manualSL] onTPInput_frame dom_write_fields)
next
  case ClickTPRecommendation
  with assms(1) show ?thesis by (simp add: clickTPRecommendation_frame)
next
  case ClickUseTPRecommended
  with assms(1) show ?thesis
    by (simp add: run_listeners_keeps [where P = manualSL] clickTPRecommendation_frame)
qed (insert assms, simp_all)

lemma act_keeps_manualTP:
  assumes "manualTP w" and "a \<noteq> ClickTPRecommendation" and "a \<noteq> ClickUseTPRecommended"
  shows "manualTP (act a w)"
proof (cases a)
  case (SelectTimeframe tf)
  with assms(1) show ?thesis
    by (simp add: run_listeners_keeps [where P = manualTP] updateStrategyInfo_frame dom_write_fields)
next
  case (EditStopLoss typed)
  with assms(1) show ?thesis
    by (simp add: run_listeners_keeps [where P = manualTP] onSLInput_frame dom_write_fields)
next
  case (EditTakeProfit typed)
  with assms(1) show ?thesis
    by (simp add: run_listeners_keeps [where P = manualTP] onTPInput_frame dom_write_fields)
next
  case ClickSLRecommendation
  with assms(1) show ?thesis by (simp add: clickSLRecommendation_frame)
next
  case ClickUseSLRecommended
  with assms(1) show ?thesis
    by (simp add: run_listeners_keeps [where P = manualTP] clickSLRecommendation_frame)
qed (insert assms, simp_all)

lemma select_keeps_flags:
  "manualSL (act (SelectTimeframe tf) w) = manualSL w"
  "manualTP (act (SelectTimeframe tf) w) = manualTP w"
proof -
  let ?w0 = "set_prop (ById ''timeframe-select'') ''value'' (Str tf) w"
  have "manualSL (run_listeners OnTimeframeChange (updateStrategyInfo tf) ?w0) = manualSL w"
    by (rule run_listeners_keeps [where P = "\<lambda>v. manualSL v = manualSL w"])
       (simp_all add: updateStrategyInfo_frame dom_write_fields)
  then show "manualSL (act (SelectTimeframe tf) w) = manualSL w" by simp
  have "manualTP (run_listeners OnTimeframeChange (updateStrategyInfo tf) ?w0) = manualTP w"
    by (rule run_listeners_keeps [where P = "\<lambda>v. manualTP v = manualTP w"])
       (simp_all add: updateStrategyInfo_frame dom_write_fields)
  then show "manualTP (act (SelectTimeframe tf) w) = manualTP w" by simp
qed

lemma select_writes_SL:
  assumes "timeframeRecommendations tf = Some rec" and "OnTimeframeChange \<in> set (listeners w)"
    and "present w (ById ''timeframe-select'')"
    and "present w (ById ''stop-loss'')" and "present w (ById ''sl-recommendation-btn'')"
    and "\<not> manualSL w"
  shows "prop_of (act (SelectTimeframe tf) w) (ById ''stop-loss'') ''value'' = Num (Fin (stopLoss rec))"
proof -
  let ?w0 = "set_prop (ById ''timeframe-select'') ''value'' (Str tf) w"
  let ?P = "\<lambda>v. \<not> manualSL v \<and> present v (ById ''stop-loss'') \<and> present v (ById ''sl-recommendation-btn'')"
  have "prop_of (run_listeners OnTimeframeChange (updateStrategyInfo tf) ?w0) (ById ''stop-loss'') ''value''
          = Num (Fin (stopLoss rec))"
  proof (rule run_listeners_last [where P = ?P])
    show "?P (updateStrategyInfo tf v)" if "?P v" for v
      using that by (simp add: updateStrategyInfo_frame)
    show "prop_of (updateStrategyInfo tf v) (ById ''stop-loss'') ''value'' = Num (Fin (stopLoss rec))"
      if "?P v" for v
      using that assms(1) by (simp add: updateStrategyInfo_SL)
    show "?P ?w0" using assms by (simp add: dom_write_fields)
    show "OnTimeframeChange \<in> set (listeners ?w0)" using assms(2) by (simp add: dom_write_fields)
  qed
  with assms(3) show ?thesis by simp
qed

lemma select_writes_TP:
  assumes "timeframeRecommendations tf = Some rec" and "OnTimeframeChange \<in> set (listeners w)"
    and "present w (ById ''timeframe-select'')"
    and "present w (ById ''take-profit'')" and "present w (ById ''tp-recommendation-btn'')"
    and "\<not> manualTP w"
  shows "prop_of (act (SelectTimeframe tf) w) (ById ''take-profit'') ''value'' = Num (Fin (takeProfit rec))"
proof -
  let ?w0 = "set_prop (ById ''timeframe-select'') ''value'' (Str tf) w"
  let ?P = "\<lambda>v. \<not> manualTP v \<and> present v (ById ''take-profit'') \<and> present v (ById ''tp-recommendation-btn'')"
  have "prop_of (run_listeners OnTimeframeChange (updateStrategyInfo tf) ?w0) (ById ''take-profit'') ''value''
          = Num (Fin (takeProfit rec))"
  proof (rule run_listeners_last [where P = ?P])
    show "?P (updateStrategyInfo tf v)" if "?P v" for v
      using that by (simp add: updateStrategyInfo_frame)
    show "prop_of (updateStrategyInfo tf v) (ById ''take-profit'') ''value'' = Num (Fin (takeProfit rec))"
      if "?P v" for v
      using that assms(1) by (simp add: updateStrategyInfo_TP)
    show "?P ?w0" using assms by (simp add: dom_write_fields)
    show "OnTimeframeChange \<in> set (listeners ?w0)" using assms(2) by (simp add: dom_write_fields)
  qed
  with assms(3) show ?thesis by simp
qed

lemma select_leaves_manual_SL:
  assumes "manualSL w"
  shows "page (act (SelectTimeframe tf) w) (ById ''stop-loss'') = page w (ById ''stop-loss'')"
proof -
  let ?w0 = "set_prop (ById ''timeframe-select'') ''value'' (Str tf) w"
  let ?P = "\<lambda>v. manualSL v \<and> page v (ById ''stop-loss'') = page w (ById ''stop-loss'')"
  have "?P (run_listeners OnTimeframeChange (updateStrategyInfo tf) ?w0)"
  proof (rule run_listeners_keeps [where P = ?P])
    show "?P (updateStrategyInfo tf v)" if "?P v" for v
      using that by (simp add: updateStrategyInfo_frame updateStrategyInfo_manualSL)
    show "?P ?w0" using assms by (simp add: dom_write_fields dom_write_other)
  qed
  then show ?thesis by simp
qed

lemma select_leaves_manual_TP:
  assumes "manualTP w"
  shows "page (act (SelectTimeframe tf) w) (ById ''take-profit'') = page w (ById ''take-profit'')"
proof -
  let ?w0 = "set_prop (ById ''timeframe-select'') ''value'' (Str tf) w"
  let ?P = "\<lambda>v. manualTP v \<and> page v (ById ''take-profit'') = page w (ById ''take-profit'')"
  have "?P (run_listeners OnTimeframeChange (updateStrategyInfo tf) ?w0)"
  proof (rule run_listeners_keeps [where P = ?P])
    show "?P (updateStrategyInfo tf v)" if "?P v" for v
      using that by (simp add: updateStrategyInfo_frame updateStrategyInfo_manualTP)
    show "?P ?w0" using assms by (simp add: dom_write_fields dom_write_other)
  qed
  then show ?thesis by simp
qed

lemma edit_sets_manualSL:
  assumes "OnSLInput \<in> set (listeners w)" and "present w (ById ''stop-loss'')"
  shows "manualSL (act (EditStopLoss txt) w)"
proof -
  let ?w0 = "set_prop (ById ''stop-loss'') ''value'' (Str txt) w"
  have "manualSL (run_listeners OnSLInput onSLInput ?w0)"
    by (rule run_listeners_last [where P = "\<lambda>v. True"])
       (use assms in \<open>simp_all add: onSLInput_frame dom_write_fields\<close>)
  with assms(2) show ?thesis by simp
qed

lemma edit_sets_manualTP:
  assumes "OnTPInput \<in> set (listeners w)" and "present w (ById ''take-profit'')"
  shows "manualTP (act (EditTakeProfit txt) w)"
proof -
  let ?w0 = "set_prop (ById ''take-profit'') ''value'' (Str txt) w"
  have "manualTP (run_listeners OnTPInput onTPInput ?w0)"
    by (rule run_listeners_last [where P = "\<lambda>v. True"])
       (use assms in \<open>simp_all add: onTPInput_frame dom_write_fields\<close>)
  with assms(2) show ?thesis by simp
qed

lemma addEventListener_frame:
  "manualSL (addEventListener n l w) = manualSL w"
  "manualTP (addEventListener n l w) = manualTP w"
  "present (addEventListener n l w) m = present w m"
  "listeners (addEventListener n l w) = (if present w n then listeners w @ [l] else listeners w)"
  by (simp_all add: addEventListener_def present_def)

lemma setupSmartRecommendations_frame:
  "manualSL (setupSmartRecommendations w) = manualSL w"
  "manualTP (setupSmartRecommendations w) = manualTP w"
  "present (setupSmartRecommendations w) m = present w m"
  by (simp_all add: setupSmartRecommendations_def addEventListener_frame updateStrategyInfo_frame)

lemma setup_ready:
  assumes "present w (ById ''timeframe-select'')"
    and "present w (ById ''stop-loss'')" and "present w (ById ''take-profit'')"
    and "present w (ById ''sl-recommendation-btn'')" and "present w (ById ''tp-recommendation-btn'')"
    and "present w (ById ''use-sl-recommended'')" and "present w (ById ''use-tp-recommended'')"
    and "listeners w = []"
  shows "settings_form_ready (setupSmartRecommendations w)"
proof -
  have "listeners (setupSmartRecommendations w) =
          [OnTimeframeChange, OnSLInput, OnTPInput, OnSLRecommendationClick,
           OnTPRecommendationClick, OnUseSLClick, OnUseTPClick]"
    using assms
    by (simp add: setupSmartRecommendations_def addEventListener_frame updateStrategyInfo_frame)
  then show ?thesis
    using assms by (auto simp: settings_form_ready_def setupSmartRecommendations_frame)
qed

text \<open>
  C5. On a settings form whose elements exist and whose listeners are attached, selecting
  a timeframe of the table writes the table's stop-loss (take-profit) into the field when
  the field's override flag is false and leaves the field untouched when the flag is true.
  Typing into a field sets its flag. No action makes a set flag false except the field's
  recommendation toggle and its "use recommended" button; selecting a timeframe changes
  neither flag.
\<close>

theorem recommendation_respects_manual_override:
  assumes "settings_form_ready w" and "timeframeRecommendations T = Some rec"
  shows "(if manualSL w
          then page (act (SelectTimeframe T) w) (ById ''stop-loss'') = page w (ById ''stop-loss'')
          else prop_of (act (SelectTimeframe T) w) (ById ''stop-loss'') ''value''
                 = Num (Fin (stopLoss rec))) \<and>
         (if manualTP w
          then page (act (SelectTimeframe T) w) (ById ''take-profit'') = page w (ById ''take-profit'')
          else prop_of (act (SelectTimeframe T) w) (ById ''take-profit'') ''value''
                 = Num (Fin (takeProfit rec))) \<and>
         manualSL (act (EditStopLoss typed) w) \<and>
         manualTP (act (EditTakeProfit typed) w) \<and>
         (manualSL w \<and> \<not> manualSL (act a w) \<longrightarrow>
            a = ClickSLRecommendation \<or> a = ClickUseSLRecommended) \<and>
         (manualTP w \<and> \<not> manualTP (act a w) \<longrightarrow>
            a = ClickTPRecommendation \<or> a = ClickUseTPRecommended) \<and>
         manualSL (act (SelectTimeframe tf) w) = manualSL w \<and>
         manualTP (act (SelectTimeframe tf) w) = manualTP w"
proof -
  from assms(1) have els:
    "present w (ById ''timeframe-select'')"
    "present w (ById ''stop-loss'')" "present w (ById ''take-profit'')"
    "present w (ById ''sl-recommendation-btn'')" "present w (ById ''tp-recommendation-btn'')"
    and reg: "OnTimeframeChange \<in> set (listeners w)" "OnSLInput \<in> set (listeners w)"
      "OnTPInput \<in> set (listeners w)"
    by (simp_all add: settings_form_ready_def)
  have sl: "if manualSL w
          then page (act (SelectTimeframe T) w) (ById ''stop-loss'') = page w (ById ''stop-loss'')
          else prop_of (act (SelectTimeframe T) w) (ById ''stop-loss'') ''value''
                 = Num (Fin (stopLoss rec))"
    using select_leaves_manual_SL [of w T]
      select_writes_SL [OF assms(2) reg(1) els(1) els(2) els(4)] by simp
  have tp: "if manualTP w
          then page (act (SelectTimeframe T) w) (ById ''take-profit'') = page w (ById ''take-profit'')
          else prop_of (act (SelectTimeframe T) w) (ById ''take-profit'') ''value''
                 = Num (Fin (takeProfit rec))"
    using select_leaves_manual_TP [of w T]
      select_writes_TP [OF assms(2) reg(1) els(1) els(3) els(5)] by simp
  have e1: "manualSL (act (EditStopLoss typed) w)"
    using reg(2) els(2) by (rule edit_sets_manualSL)
  have e2: "manualTP (act (EditTakeProfit typed) w)"
    using reg(3) els(3) by (rule edit_sets_manualTP)
  have k1: "manualSL w \<and> \<not> manualSL (act a w) \<longrightarrow>
            a = ClickSLRecommendation \<or> a = ClickUseSLRecommended"
    using act_keeps_manualSL [of w a] by blast
  have k2: "manualTP w \<and> \<not> manualTP (act a w) \<longrightarrow>
            a = ClickTPRecommendation \<or> a = ClickUseTPRecommended"
    using act_keeps_manualTP [of w a] by blast
  from sl tp e1 e2 k1 k2 select_keeps_flags [of tf w] show ?thesis
    by (intro conjI) assumption+
qed

lemma form_world_setup:
  "settings_form_ready (setupSmartRecommendations form_world)"
  "\<not> manualSL (setupSmartRecommendations form_world)"
  "\<not> manualTP (setupSmartRecommendations form_world)"
proof -
  show "settings_form_ready (setupSmartRecommendations form_world)"
    by (rule setup_ready) (simp_all add: form_world_def present_def page_of_def world0_def)
  show "\<not> manualSL (setupSmartRecommendations form_world)"
    "\<not> manualTP (setupSmartRecommendations form_world)"
    by (simp_all add: setupSmartRecommendations_frame form_world_def world0_def)
qed

theorem recommendation_respects_manual_override_witness:
  "settings_form_ready (setupSmartRecommendations form_world) \<and>
   timeframeRecommendations ''1h'' \<noteq> None \<and>
   prop_of (act (SelectTimeframe ''1h'') (setupSmartRecommendations form_world))
     (ById ''stop-loss'') ''value'' = Num (Fin (3 / 2)) \<and>
   prop_of (act (SelectTimeframe ''1h'') (setupSmartRecommendations form_world))
     (ById ''take-profit'') ''value'' = Num (Fin 3) \<and>
   manualSL (act (EditStopLoss ''2.0'') (setupSmartRecommendations form_world))"
proof -
  let ?rec = "the (timeframeRecommendations ''1h'')"
  have t: "timeframeRecommendations ''1h'' = Some ?rec"
    by (simp add: timeframeRecommendations_def)
  have v: "stopLoss ?rec = 3 / 2" "takeProfit ?rec = 3"
    by (simp_all add: timeframeRecommendations_def)
  have n: "timeframeRecommendations ''1h'' \<noteq> None"
    by (simp add: timeframeRecommendations_def)
  from recommendation_respects_manual_override [OF form_world_setup(1) t, of "''2.0''"]
    form_world_setup(2,3) v
  have "prop_of (act (SelectTimeframe ''1h'') (setupSmartRecommendations form_world))
          (ById ''stop-loss'') ''value'' = Num (Fin (3 / 2)) \<and>
        prop_of (act (SelectTimeframe ''1h'') (setupSmartRecommendations form_world))
          (ById ''take-profit'') ''value'' = Num (Fin 3) \<and>
        manualSL (act (EditStopLoss ''2.0'') (setupSmartRecommendations form_world))"
    by simp
  with form_world_setup(1) n show ?thesis by blast
qed

section \<open>How the page evolves under the script\<close>

lemma evolves_refl: "evolves Q w w"
  by (simp add: evolves_def)

lemma evolves_trans: "evolves Q a b \<Longrightarrow> evolves Q b c \<Longrightarrow> evolves Q a c"
  by (auto simp: evolves_def)

lemma evolves_mono: "evolves Q a b \<Longrightarrow> (\<And>ev. Q ev \<Longrightarrow> Q' ev) \<Longrightarrow> evolves Q' a b"
  by (auto simp: evolves_def list_all_iff)

lemma evolves_silent:
  "(\<And>n. present w' n = present w n) \<Longrightarrow> log w' = log w \<Longrightarrow> evolves Q w w'"
  by (simp add: evolves_def)

lemma stays_ret: "(\<And>w. R w w) \<Longrightarrow> stays R (ret x)"
  and stays_throw: "(\<And>w. R w w) \<Longrightarrow> stays R (throw err)"
  and stays_expr: "(\<And>w. R w w) \<Longrightarrow> stays R (expr r)"
  and stays_effect: "(\<And>w. R w (f w)) \<Longrightarrow> stays R (effect f)"
  by (simp_all add: stays_def ret_def throw_def expr_def effect_def)

lemma stays_andThen:
  assumes "\<And>a b c. R a b \<Longrightarrow> R b c \<Longrightarrow> R a c" and "stays R m" and "\<And>x. stays R (f x)"
  shows "stays R (andThen m f)"
  unfolding stays_def andThen_def
proof
  fix w
  obtain r w1 where m: "m w = (r, w1)" by (cases "m w")
  with assms(2) have 1: "R w w1" by (auto simp: stays_def dest: spec [of _ w])
  show "R w (snd (case m w of (Inl err, w1) \<Rightarrow> (Inl err, w1) | (Inr x, w1) \<Rightarrow> f x w1))"
  proof (cases r)
    case (Inl err)
    with m 1 show ?thesis by simp
  next
    case (Inr x)
    from assms(3) [of x] have "R w1 (snd (f x w1))" by (simp add: stays_def)
    with 1 assms(1) m Inr show ?thesis by auto
  qed
qed

lemma stays_tryCatch:
  assumes "\<And>a b c. R a b \<Longrightarrow> R b c \<Longrightarrow> R a c" and "stays R m" and "\<And>err. stays R (h err)"
  shows "stays R (tryCatch m h)"
  unfolding stays_def tryCatch_def
proof
  fix w
  obtain r w1 where m: "m w = (r, w1)" by (cases "m w")
  with assms(2) have 1: "R w w1" by (auto simp: stays_def dest: spec [of _ w])
  show "R w (snd (case m w of (Inl err, w1) \<Rightarrow> h err w1 | (Inr x, w1) \<Rightarrow> (Inr x, w1)))"
  proof (cases r)
    case (Inl err)
    from assms(3) [of err] have "R w1 (snd (h err w1))" by (simp add: stays_def)
    with 1 assms(1) m Inl show ?thesis by auto
  next
    case (Inr x)
    with m 1 show ?thesis by simp
  qed
qed

lemma stays_whenPresent:
  "(\<And>w. R w w) \<Longrightarrow> stays R m \<Longrightarrow> stays R (whenPresent n m)"
  by (simp add: stays_def whenPresent_def)

lemma stays_if:
  "stays R a \<Longrightarrow> stays R b \<Longrightarrow> stays R (if c then a else b)"
  by simp

lemma staysD: "stays R m \<Longrightarrow> R w (snd (m w))"
  by (simp add: stays_def)

lemmas evolves_andThen = stays_andThen [where R = "evolves Q" for Q, OF evolves_trans]

lemmas evolves_tryCatch = stays_tryCatch [where R = "evolves Q" for Q, OF evolves_trans]

lemmas evolves_basic =
  stays_ret [where R = "evolves Q" for Q, OF evolves_refl]
  stays_throw [where R = "evolves Q" for Q, OF evolves_refl]
  stays_expr [where R = "evolves Q" for Q, OF evolves_refl]

lemmas evolves_whenPresent = stays_whenPresent [where R = "evolves Q" for Q, OF evolves_refl]

lemma evolves_update_element: "evolves Q w (update_element n f w)"
  by (rule evolves_silent) (simp_all add: update_element_fields)

lemma evolves_dom_write:
  "evolves Q w (set_prop n p v w)"
  "evolves Q w (set_className n cs w)"
  "evolves Q w (add_class n c w)"
  "evolves Q w (remove_class n c w)"
  by (simp_all add: dom_write_defs evolves_update_element)

lemma requests_in_mono: "requests_in S ev \<Longrightarrow> S \<subseteq> S' \<Longrightarrow> requests_in S' ev"
  by (auto simp: requests_in_def split: event.splits)

lemma evolves_requests_mono:
  "evolves (requests_in S) a b \<Longrightarrow> S \<subseteq> S' \<Longrightarrow> evolves (requests_in S') a b"
  by (erule evolves_mono) (erule requests_in_mono)

lemma stays_requests_mono:
  "stays (evolves (requests_in S)) m \<Longrightarrow> S \<subseteq> S' \<Longrightarrow> stays (evolves (requests_in S')) m"
  by (auto simp: stays_def intro: evolves_requests_mono)

lemma evolves_getFreshToken: "evolves (requests_in S) w (snd (getFreshToken e w))"
  by (auto simp: getFreshToken_def evolves_def present_def requests_in_def Let_def
        split: option.splits sum.splits)

lemma evolves_doFetch:
  "request_of ep opts \<in> S \<Longrightarrow> evolves (requests_in S) w (snd (doFetch e ep opts w))"
  by (simp add: doFetch_def evolves_def present_def requests_in_def request_of_def)

lemma evolves_retryBlock:
  assumes "request_of ep opts \<in> S"
  shows "evolves (requests_in S) w (snd (retryBlock e ep opts w))"
proof (cases "getFreshToken e w")
  case (Pair r w1)
  have 1: "evolves (requests_in S) w w1"
    using evolves_getFreshToken [of S w e] Pair by simp
  show ?thesis
  proof (cases r)
    case (Inl err)
    with Pair 1 show ?thesis by (simp add: retryBlock_def)
  next
    case (Inr t)
    let ?ro = "opts\<lparr>headers := AList.update ''Authorization'' (''Bearer '' @ token_text w1) (headers opts)\<rparr>"
    have "evolves (requests_in S) w1 (snd (doFetch e ep ?ro w1))"
      using assms by (simp add: evolves_doFetch request_of_def)
    with 1 have 2: "evolves (requests_in S) w (snd (doFetch e ep ?ro w1))"
      by (rule evolves_trans)
    obtain r2 w2 where d: "doFetch e ep ?ro w1 = (r2, w2)" by (cases "doFetch e ep ?ro w1")
    with 2 Pair Inr show ?thesis
      by (cases r2) (simp_all add: retryBlock_def Let_def)
  qed
qed

lemma evolves_retryAfter401:
  "request_of ep opts \<in> S \<Longrightarrow> evolves (requests_in S) w (snd (retryAfter401 e ep opts w))"
  using evolves_retryBlock [of ep opts S w e]
  by (cases "retryBlock e ep opts w") (auto simp: retryAfter401_def split: sum.splits)

lemma evolves_handleResponse:
  "request_of ep opts \<in> S \<Longrightarrow> evolves (requests_in S) w (snd (handleResponse e ep opts resp w))"
  by (simp add: handleResponse_def evolves_retryAfter401 evolves_refl)

lemma evolves_ensureToken: "evolves (requests_in S) w (snd (ensureToken e w))"
  using evolves_getFreshToken [of S w e]
  by (cases "getFreshToken e w") (auto simp: ensureToken_def evolves_refl split: sum.splits)

lemma request_of_mergeOptions: "request_of ep (mergeOptions w options) = request_of ep options"
  by (simp add: mergeOptions_def request_of_def)

lemma evolves_makeAuthenticatedApiCall:
  assumes "request_of ep options \<in> S"
  shows "evolves (requests_in S) w (snd (makeAuthenticatedApiCall e ep options w))"
proof (cases "ensureToken e w")
  case (Pair r w1)
  have 1: "evolves (requests_in S) w w1"
    using evolves_ensureToken [of S w e] Pair by simp
  show ?thesis
  proof (cases r)
    case (Inl err)
    with Pair 1 show ?thesis by (simp add: makeAuthenticatedApiCall_def)
  next
    case (Inr u)
    show ?thesis
    proof (cases "has_token w1")
      case False
      with Pair Inr 1 show ?thesis by (simp add: makeAuthenticatedApiCall_def)
    next
      case True
      let ?mo = "mergeOptions w1 options"
      obtain r2 w2 where d: "doFetch e ep ?mo w1 = (r2, w2)" by (cases "doFetch e ep ?mo w1")
      have m: "request_of ep ?mo \<in> S" using assms by (simp add: request_of_mergeOptions)
      have "evolves (requests_in S) w1 w2"
        using evolves_doFetch [OF m, of w1 e] d by simp
      with 1 have 2: "evolves (requests_in S) w w2" by (rule evolves_trans)
      show ?thesis
      proof (cases r2)
        case (Inl err)
        with Pair Inr True d 2 show ?thesis by (simp add: makeAuthenticatedApiCall_def Let_def)
      next
        case (Inr resp)
        have "evolves (requests_in S) w2 (snd (handleResponse e ep ?mo resp w2))"
          using m by (rule evolves_handleResponse)
        with 2 have "evolves (requests_in S) w (snd (handleResponse e ep ?mo resp w2))"
          by (rule evolves_trans)
        with Pair \<open>r = Inr u\<close> True d Inr show ?thesis
          by (simp add: makeAuthenticatedApiCall_def Let_def)
      qed
    qed
  qed
qed

lemma stays_makeAuthenticatedApiCall:
  "request_of ep options \<in> S \<Longrightarrow> stays (evolves (requests_in S)) (makeAuthenticatedApiCall e ep options)"
  by (simp add: stays_def evolves_makeAuthenticatedApiCall)

lemma evolves_setTimeout: "evolves (requests_in S) w (snd (setTimeout k ms w))"
  by (simp add: setTimeout_def Let_def evolves_def present_def requests_in_def)

lemma evolves_setInterval: "evolves (requests_in S) w (snd (setInterval k ms w))"
  by (simp add: setInterval_def Let_def evolves_def present_def requests_in_def)

lemma evolves_clearInterval: "evolves (requests_in S) w (clearInterval h w)"
  by (simp add: clearInterval_def evolves_def present_def requests_in_def)

lemma evolves_spawn: "evolves (requests_in S) w (spawn t w)"
  by (simp add: spawn_def evolves_def present_def requests_in_def)

lemma stays_showNotification: "stays (evolves (requests_in S)) (showNotification msg type ms)"
  unfolding stays_def showNotification_def Let_def
  by (auto intro!: evolves_refl evolves_dom_write
        evolves_trans [OF _ evolves_setTimeout]
        evolves_trans [OF evolves_dom_write(2) evolves_dom_write(1)]
        evolves_trans [OF evolves_dom_write(2) evolves_trans [OF evolves_dom_write(1) evolves_trans [OF evolves_dom_write(1) evolves_dom_write(3)]]])

lemma evolves_after:
  "evolves Q w w' \<Longrightarrow> evolves Q w (set_prop n p v w')"
  "evolves Q w w' \<Longrightarrow> evolves Q w (set_className n cs w')"
  "evolves Q w w' \<Longrightarrow> evolves Q w (add_class n c w')"
  "evolves Q w w' \<Longrightarrow> evolves Q w (remove_class n c w')"
  by (erule evolves_trans, rule evolves_dom_write)+

lemma evolves_after_spawn:
  "evolves (requests_in S) w w' \<Longrightarrow> evolves (requests_in S) w (spawn t w')"
  by (erule evolves_trans) (rule evolves_spawn)

lemma evolves_showSubscriptionNote: "evolves Q w (showSubscriptionNote P d w)"
  by (simp add: showSubscriptionNote_def evolves_after evolves_refl)

lemma evolves_showDaysRemaining: "evolves Q w (showDaysRemaining P sub w)"
  by (simp add: showDaysRemaining_def Let_def evolves_refl
        evolves_trans [OF evolves_dom_write(1) evolves_showSubscriptionNote])

lemma evolves_showSubscription: "evolves Q w (showSubscription P sub w)"
  unfolding showSubscription_def
  by (rule evolves_trans [OF _ evolves_showDaysRemaining])
     (simp add: evolves_after evolves_refl)

lemma evolves_showPnl: "evolves Q w (showPnl P v w)"
  by (simp add: showPnl_def Let_def evolves_after evolves_refl)

lemmas evolves_intros =
  evolves_andThen evolves_tryCatch evolves_basic evolves_whenPresent stays_effect
  evolves_after evolves_refl

lemma stays_updateProfile: "stays (evolves Q) (updateProfile P profile)"
  unfolding updateProfile_def
  by (intro evolves_intros evolves_showSubscription stays_if)

lemma stays_updateAccount: "stays (evolves Q) (updateAccount P account)"
  unfolding updateAccount_def
  by (intro evolves_intros evolves_showPnl)

lemma stays_updateStats: "stays (evolves Q) (updateStats P stats)"
  unfolding updateStats_def
  by (intro evolves_intros evolves_showPnl)

lemma stays_updatePositions: "stays (evolves Q) (updatePositions P positions)"
  by (auto simp: stays_def updatePositions_def evolves_refl evolves_dom_write
        split: jsval.splits sum.splits)

lemma evolves_showApi:
  "evolves (requests_in S) w (showApiConnected w)"
  "evolves (requests_in S) w (showApiError a w)"
  "evolves (requests_in S) w (showApiMissing w)"
  by (simp_all add: showApiConnected_def showApiError_def showApiMissing_def
        evolves_after evolves_after_spawn evolves_refl)

lemma stays_updateApiStatus: "stays (evolves (requests_in S)) (updateApiStatus a)"
  unfolding updateApiStatus_def
  by (intro evolves_intros evolves_showApi stays_if)

lemma stays_showPlaceholders: "stays (evolves Q) (showPlaceholders P)"
  unfolding showPlaceholders_def
  by (intro evolves_intros stays_updateProfile stays_updateStats)

lemma stays_fallbackFetches: "stays (evolves (requests_in fallbackRequests)) (fallbackFetches e P)"
  unfolding fallbackFetches_def
  by (intro evolves_intros stays_updateProfile stays_updateStats stays_showNotification
        stays_makeAuthenticatedApiCall)
     (simp_all add: fallbackRequests_def no_options_def request_of_def)

lemma stays_loadFallbackData: "stays (evolves (requests_in fallbackRequests)) (loadFallbackData e P)"
  unfolding loadFallbackData_def
  by (intro evolves_intros stays_fallbackFetches stays_showPlaceholders)

lemma stays_renderDashboard: "stays (evolves (requests_in S)) (renderDashboard P data)"
  unfolding renderDashboard_def
  by (intro evolves_intros stays_updateProfile stays_updateAccount stays_updatePositions
        stays_updateStats stays_updateApiStatus stays_showNotification)

lemma stays_aggregateLoad: "stays (evolves (requests_in dashboardRequests)) (aggregateLoad e P)"
  unfolding aggregateLoad_def
  by (intro evolves_intros stays_renderDashboard stays_makeAuthenticatedApiCall)
     (simp_all add: dashboardRequests_def no_options_def request_of_def)

lemma stays_loadAllDashboardData:
  "stays (evolves (requests_in dashboardRequests)) (loadAllDashboardData e P)"
  unfolding loadAllDashboardData_def
  by (intro evolves_intros stays_aggregateLoad stays_showNotification
        stays_requests_mono [OF stays_loadFallbackData])
     (auto simp: dashboardRequests_def)

lemma evolves_showBotStatus: "evolves Q w (showBotStatus st w)"
  by (simp add: showBotStatus_def evolves_after evolves_refl)

lemma evolves_getBotStatus: "evolves (requests_in statusRequests) w (getBotStatus e w)"
  unfolding getBotStatus_def
  by (rule staysD, intro evolves_intros evolves_showBotStatus stays_makeAuthenticatedApiCall)
     (simp_all add: statusRequests_def no_options_def request_of_def)

lemma evolves_log: "evolves Q w w' \<Longrightarrow> log w' = log w @ events_since w w'"
  by (auto simp: evolves_def events_since_def)

lemma evolves_events: "evolves Q w w' \<Longrightarrow> list_all Q (events_since w w')"
  by (auto simp: evolves_def events_since_def)


lemma events_since_trans:
  "evolves Q a b \<Longrightarrow> evolves Q' b c \<Longrightarrow> events_since a c = events_since a b @ events_since b c"
  by (auto simp: evolves_def events_since_def)

lemma events_since_same: "log w' = log w \<Longrightarrow> events_since w w' = []"
  by (simp add: events_since_def)

text \<open>With a cached token the call starts with the request itself.\<close>

lemma api_call_first_event:
  assumes "has_token w"
  shows "\<exists>rest. events_since w (snd (makeAuthenticatedApiCall e ep options w))
           = Fetch ep (mergeOptions w options) # rest"
proof -
  let ?mo = "mergeOptions w options"
  let ?w2 = "snd (doFetch e ep ?mo w)"
  have l2: "log ?w2 = log w @ [Fetch ep ?mo]"
    by (simp add: doFetch_def)
  have call: "snd (makeAuthenticatedApiCall e ep options w) =
      (case fst (doFetch e ep ?mo w) of Inl err \<Rightarrow> ?w2
       | Inr resp \<Rightarrow> snd (handleResponse e ep ?mo resp ?w2))"
    using assms
    by (cases "doFetch e ep ?mo w")
       (auto simp: makeAuthenticatedApiCall_def ensureToken_def Let_def split: sum.splits)
  have "evolves (requests_in UNIV) ?w2 (snd (makeAuthenticatedApiCall e ep options w))"
    unfolding call
    by (cases "fst (doFetch e ep ?mo w)") (simp_all add: evolves_refl evolves_handleResponse)
  then obtain evs where "log (snd (makeAuthenticatedApiCall e ep options w)) = log ?w2 @ evs"
    by (auto simp: evolves_def)
  with l2 show ?thesis by (simp add: events_since_def)
qed

section \<open>Properties of the positions renderer\<close>





















section \<open>Properties of the action handlers\<close>

lemma stays_sendClose: "stays (evolves (requests_in UNIV)) (sendClose e P symbol positionSide)"
  unfolding sendClose_def
  by (intro evolves_intros stays_showNotification stays_makeAuthenticatedApiCall stays_if
        evolves_getBotStatus [THEN evolves_requests_mono]
        stays_loadAllDashboardData [THEN stays_requests_mono])
     simp_all

lemma andThen_first_event:
  assumes "\<exists>rest. events_since w (snd (m w)) = ev # rest"
    and "stays (evolves Q) m" and "\<And>x. stays (evolves Q) (f x)"
  shows "\<exists>rest. events_since w (snd (andThen m f w)) = ev # rest"
proof -
  obtain r w1 where m: "m w = (r, w1)" by (cases "m w")
  from assms(1) m obtain rest where 1: "events_since w w1 = ev # rest" by auto
  from assms(2) m have e1: "evolves Q w w1" by (auto dest: staysD [of _ m w])
  show ?thesis
  proof (cases r)
    case (Inl err)
    with m 1 show ?thesis by (simp add: andThen_def)
  next
    case (Inr x)
    from assms(3) [of x] have e2: "evolves Q w1 (snd (f x w1))" by (rule staysD)
    from events_since_trans [OF e1 e2] 1 m Inr show ?thesis
      by (simp add: andThen_def)
  qed
qed

lemma tryCatch_first_event:
  assumes "\<exists>rest. events_since w (snd (m w)) = ev # rest"
    and "stays (evolves Q) m" and "\<And>err. stays (evolves Q) (h err)"
  shows "\<exists>rest. events_since w (snd (tryCatch m h w)) = ev # rest"
proof -
  obtain r w1 where m: "m w = (r, w1)" by (cases "m w")
  from assms(1) m obtain rest where 1: "events_since w w1 = ev # rest" by auto
  from assms(2) m have e1: "evolves Q w w1" by (auto dest: staysD [of _ m w])
  show ?thesis
  proof (cases r)
    case (Inr x)
    with m 1 show ?thesis by (simp add: tryCatch_def)
  next
    case (Inl err)
    from assms(3) [of err] have e2: "evolves Q w1 (snd (h err w1))" by (rule staysD)
    from events_since_trans [OF e1 e2] 1 m Inl show ?thesis
      by (simp add: tryCatch_def)
  qed
qed

lemma sendClose_first_event:
  assumes "has_token w"
  shows "\<exists>rest. events_since w (snd (sendClose e P symbol positionSide w))
           = Fetch ''/api/user/close-position'' (mergeOptions w (closeRequest symbol positionSide)) # rest"
  unfolding sendClose_def closeRequest_def
  by (rule tryCatch_first_event [where Q = "requests_in UNIV"],
      rule andThen_first_event [where Q = "requests_in UNIV"],
      rule api_call_first_event [OF assms])
     (intro evolves_intros stays_showNotification stays_makeAuthenticatedApiCall stays_if
        evolves_getBotStatus [THEN evolves_requests_mono]
        stays_loadAllDashboardData [THEN stays_requests_mono]; simp)+

text \<open>
  C6. When the user does not confirm the prompt, \<^verbatim>\<open>closePosition\<close> returns with the page
  state, its log of requests included, exactly as it was. (When the user confirms and a
  token is cached, the first thing the call does is the POST to
  \<^verbatim>\<open>/api/user/close-position\<close>.)
\<close>

theorem closePosition_needs_confirmation:
  shows "(\<not> confirmAnswer e (closePrompt symbol positionSide) \<longrightarrow>
            closePosition e P symbol positionSide w = (Inr (), w) \<and>
            events_since w (snd (closePosition e P symbol positionSide w)) = []) \<and>
         (confirmAnswer e (closePrompt symbol positionSide) \<and> has_token w \<longrightarrow>
            (\<exists>rest. events_since w (snd (closePosition e P symbol positionSide w)) =
               Fetch ''/api/user/close-position'' (mergeOptions w (closeRequest symbol positionSide))
                 # rest))"
  using sendClose_first_event [of w e P symbol positionSide]
  by (simp add: closePosition_def events_since_def)

theorem closePosition_needs_confirmation_witness:
  "\<not> confirmAnswer env_declining (closePrompt ''BTCUSDT'' ''LONG'') \<and>
   closePosition env_declining plain_prims ''BTCUSDT'' ''LONG'' world0 = (Inr (), world0) \<and>
   confirmAnswer env_confirming (closePrompt ''BTCUSDT'' ''LONG'') \<and> has_token world0 \<and>
   hd (log (snd (closePosition env_confirming plain_prims ''BTCUSDT'' ''LONG'' world0))) =
     Fetch ''/api/user/close-position'' (mergeOptions world0 (closeRequest ''BTCUSDT'' ''LONG''))"
proof -
  have d: "\<not> confirmAnswer env_declining (closePrompt ''BTCUSDT'' ''LONG'')"
    by (simp add: env_declining_def)
  have c: "confirmAnswer env_confirming (closePrompt ''BTCUSDT'' ''LONG'')"
    by (simp add: env_confirming_def)
  have t: "has_token world0"
    by (simp add: has_token_def world0_def)
  have l: "log world0 = []"
    by (simp add: world0_def)
  from closePosition_needs_confirmation [of env_declining "''BTCUSDT''" "''LONG''" plain_prims world0] d
  have 1: "closePosition env_declining plain_prims ''BTCUSDT'' ''LONG'' world0 = (Inr (), world0)"
    by blast
  from closePosition_needs_confirmation [of env_confirming "''BTCUSDT''" "''LONG''" plain_prims world0] c t
  obtain rest where "events_since world0 (snd (closePosition env_confirming plain_prims ''BTCUSDT'' ''LONG'' world0))
     = Fetch ''/api/user/close-position'' (mergeOptions world0 (closeRequest ''BTCUSDT'' ''LONG'')) # rest"
    by blast
  with l have 2: "hd (log (snd (closePosition env_confirming plain_prims ''BTCUSDT'' ''LONG'' world0))) =
     Fetch ''/api/user/close-position'' (mergeOptions world0 (closeRequest ''BTCUSDT'' ''LONG''))"
    by (simp add: events_since_def)
  from d c t 1 2 show ?thesis by blast
qed

lemma notifications_always_enabled:
  "get_opt (botConfig P w) ''notifications_enabled'' = Bool True"
  by (simp add: botConfig_def get_opt_def js_or_def checked_of_def split: option.splits)

lemma evolves_startPeriodicUpdates: "evolves (requests_in S) w (startPeriodicUpdates w)"
proof -
  let ?w1 = "if truthy_handle (updateInterval w) then clearInterval (the (updateInterval w)) w else w"
  have 1: "evolves (requests_in S) w ?w1"
    by (simp add: evolves_clearInterval evolves_refl)
  have 2: "evolves (requests_in S) ?w1 (snd (setInterval PeriodicUpdate 30000 ?w1))"
    by (rule evolves_setInterval)
  have 3: "evolves (requests_in S) (snd (setInterval PeriodicUpdate 30000 ?w1)) (startPeriodicUpdates w)"
    by (rule evolves_silent) (simp_all add: startPeriodicUpdates_def Let_def split_beta present_def)
  from 1 2 3 show ?thesis by (blast intro: evolves_trans)
qed

lemma evolves_startBotBusy: "evolves Q w (startBotBusy w)"
  by (simp add: startBotBusy_def evolves_after evolves_refl)

lemma evolves_startBotReset: "evolves Q w (startBotReset w)"
  by (simp add: startBotReset_def evolves_after evolves_refl)

lemma evolves_startBot: "evolves (requests_in (startRequests P w)) w (snd (startBot e P w))"
proof -
  let ?S = "startRequests P w"
  let ?w1 = "startBotBusy w"
  let ?rest = "\<lambda>response. andThen (expr (get_prop response ''success''))
                (\<lambda>success.
                   if truthy success then
                     andThen (showNotification (''Bot ba'' @ [CHR 0xC5, CHR 0x9F] @ ''ar'' @ [CHR 0xC4, CHR 0xB1] @ ''yla ba'' @ [CHR 0xC5, CHR 0x9F] @ ''lat'' @ [CHR 0xC4, CHR 0xB1] @ ''ld'' @ [CHR 0xC4, CHR 0xB1] @ ''!'') ''success'' 5000)
                       (\<lambda>u. andThen (effect (getBotStatus e)) (\<lambda>u. effect startPeriodicUpdates))
                   else throw (Error (toStr P (js_or (get_opt response ''message'')
                                                 (Str (''Bot ba'' @ [CHR 0xC5, CHR 0x9F] @ ''lat'' @ [CHR 0xC4, CHR 0xB1] @ ''lamad'' @ [CHR 0xC4, CHR 0xB1]))))))"
  let ?h = "\<lambda>err. andThen (showNotification ((''Bot ba'' @ [CHR 0xC5, CHR 0x9F] @ ''latma hatas'' @ [CHR 0xC4, CHR 0xB1] @ '': '') @ message_of err) ''error'' 5000)
          (\<lambda>u. effect startBotReset)"
  have rest: "stays (evolves (requests_in ?S)) (?rest response)" for response
    by (intro evolves_intros stays_showNotification stays_if evolves_startPeriodicUpdates
          evolves_getBotStatus [THEN evolves_requests_mono])
       (auto simp: startRequests_def)
  have h: "stays (evolves (requests_in ?S)) (?h err)" for err
    by (intro evolves_intros stays_showNotification evolves_startBotReset)
  have 1: "evolves (requests_in ?S) w ?w1"
    by (rule evolves_startBotBusy)
  have "request_of ''/api/bot/start'' (post (Some (botConfig P ?w1))) \<in> ?S"
    by (simp add: startRequests_def request_of_def post_def)
  then have 2: "evolves (requests_in ?S) ?w1 (snd (sendStart e P ?w1))"
    unfolding sendStart_def by (rule evolves_makeAuthenticatedApiCall)
  obtain r w2 where s: "sendStart e P ?w1 = (r, w2)" by (cases "sendStart e P ?w1")
  from 1 2 s have 12: "evolves (requests_in ?S) w w2"
    by (auto intro: evolves_trans)
  have body: "evolves (requests_in ?S) w (snd (andThen (effect startBotBusy) (\<lambda>u. andThen (sendStart e P) ?rest) w))"
  proof (cases r)
    case (Inl err)
    with s 12 show ?thesis by (simp add: andThen_def effect_def)
  next
    case (Inr response)
    from rest [of response] have "evolves (requests_in ?S) w2 (snd (?rest response w2))"
      by (rule staysD)
    with 12 have "evolves (requests_in ?S) w (snd (?rest response w2))"
      by (rule evolves_trans)
    with s Inr show ?thesis by (simp add: andThen_def effect_def)
  qed
  obtain rb wb where b: "andThen (effect startBotBusy) (\<lambda>u. andThen (sendStart e P) ?rest) w = (rb, wb)"
    by (cases "andThen (effect startBotBusy) (\<lambda>u. andThen (sendStart e P) ?rest) w")
  with body have eb: "evolves (requests_in ?S) w wb" by simp
  show ?thesis
  proof (cases rb)
    case (Inr u)
    with b eb show ?thesis by (simp add: startBot_def tryCatch_def)
  next
    case (Inl err)
    from h [of err] have "evolves (requests_in ?S) wb (snd (?h err wb))" by (rule staysD)
    with eb have "evolves (requests_in ?S) w (snd (?h err wb))" by (rule evolves_trans)
    with b Inl show ?thesis by (simp add: startBot_def tryCatch_def)
  qed
qed

lemma dom_write_token:
  "authToken (set_prop n p v w) = authToken w"
  "authToken (set_className n cs w) = authToken w"
  "authToken (add_class n c w) = authToken w"
  "authToken (remove_class n c w) = authToken w"
  by (simp_all add: dom_write_defs update_element_def split: option.splits)

lemma stays_sendStart: "stays (evolves (requests_in UNIV)) (sendStart e P)"
  by (simp add: stays_def sendStart_def evolves_makeAuthenticatedApiCall)

lemma stays_startBot_rest:
  "stays (evolves (requests_in UNIV))
     (andThen (expr (get_prop response ''success''))
                (\<lambda>success.
                   if truthy success then
                     andThen (showNotification msg ''success'' 5000)
                       (\<lambda>u. andThen (effect (getBotStatus e)) (\<lambda>u. effect startPeriodicUpdates))
                   else throw err))"
  by (intro evolves_intros stays_showNotification stays_if evolves_startPeriodicUpdates
        evolves_getBotStatus [THEN evolves_requests_mono]) simp_all

lemma startBot_first_event:
  assumes "has_token w"
  shows "\<exists>rest. events_since w (snd (startBot e P w)) =
           Fetch ''/api/bot/start'' (mergeOptions w (post (Some (botConfig P (startBotBusy w))))) # rest"
proof -
  let ?w1 = "startBotBusy w"
  have a: "authToken ?w1 = authToken w"
    by (simp add: startBotBusy_def dom_write_token)
  have l: "log ?w1 = log w"
    by (simp add: startBotBusy_def dom_write_fields)
  from a assms have t: "has_token ?w1"
    by (simp add: has_token_def)
  from a have mo: "mergeOptions ?w1 opts = mergeOptions w opts" for opts
    by (simp add: mergeOptions_def token_text_def)
  from l have es: "events_since ?w1 x = events_since w x" for x
    by (simp add: events_since_def)
  have "\<exists>rest. events_since ?w1 (snd (sendStart e P ?w1)) =
           Fetch ''/api/bot/start'' (mergeOptions w (post (Some (botConfig P ?w1)))) # rest"
    using api_call_first_event [OF t, of e "''/api/bot/start''" "post (Some (botConfig P ?w1))"]
    by (simp add: sendStart_def mo)
  then have "\<exists>rest. events_since w (snd (sendStart e P ?w1)) =
           Fetch ''/api/bot/start'' (mergeOptions w (post (Some (botConfig P ?w1)))) # rest"
    by (simp add: es)
  then have 1: "\<exists>rest. events_since w (snd ((\<lambda>v. sendStart e P (startBotBusy v)) w)) =
           Fetch ''/api/bot/start'' (mergeOptions w (post (Some (botConfig P ?w1)))) # rest"
    by simp
  have s: "stays (evolves (requests_in UNIV)) (\<lambda>v. sendStart e P (startBotBusy v))"
    unfolding stays_def
  proof
    fix v
    have "evolves (requests_in UNIV) v (startBotBusy v)"
      by (rule evolves_startBotBusy)
    moreover have "evolves (requests_in UNIV) (startBotBusy v) (snd (sendStart e P (startBotBusy v)))"
      by (rule staysD [OF stays_sendStart])
    ultimately show "evolves (requests_in UNIV) v (snd (sendStart e P (startBotBusy v)))"
      by (rule evolves_trans)
  qed
  let ?rest = "\<lambda>response. andThen (expr (get_prop response ''success''))
                (\<lambda>success.
                   if truthy success then
                     andThen (showNotification (''Bot ba'' @ [CHR 0xC5, CHR 0x9F] @ ''ar'' @ [CHR 0xC4, CHR 0xB1] @ ''yla ba'' @ [CHR 0xC5, CHR 0x9F] @ ''lat'' @ [CHR 0xC4, CHR 0xB1] @ ''ld'' @ [CHR 0xC4, CHR 0xB1] @ ''!'') ''success'' 5000)
                       (\<lambda>u. andThen (effect (getBotStatus e)) (\<lambda>u. effect startPeriodicUpdates))
                   else throw (Error (toStr P (js_or (get_opt response ''message'')
                                                 (Str (''Bot ba'' @ [CHR 0xC5, CHR 0x9F] @ ''lat'' @ [CHR 0xC4, CHR 0xB1] @ ''lamad'' @ [CHR 0xC4, CHR 0xB1]))))))"
  let ?h = "\<lambda>err. andThen (showNotification ((''Bot ba'' @ [CHR 0xC5, CHR 0x9F] @ ''latma hatas'' @ [CHR 0xC4, CHR 0xB1] @ '': '') @ message_of err) ''error'' 5000)
          (\<lambda>u. effect startBotReset)"
  let ?m = "andThen (\<lambda>v. sendStart e P (startBotBusy v)) ?rest"
  have unfold: "startBot e P w = tryCatch ?m ?h w"
    by (simp add: startBot_def tryCatch_def andThen_def effect_def)
  have m1: "\<exists>rest. events_since w (snd (?m w)) =
           Fetch ''/api/bot/start'' (mergeOptions w (post (Some (botConfig P ?w1)))) # rest"
    using 1 s stays_startBot_rest by (rule andThen_first_event)
  have sm: "stays (evolves (requests_in UNIV)) ?m"
    by (intro evolves_intros s stays_startBot_rest)
  have sh: "stays (evolves (requests_in UNIV)) (?h err)" for err
    by (intro evolves_intros stays_showNotification evolves_startBotReset)
  show ?thesis
    unfolding unfold using m1 sm sh by (rule tryCatch_first_event)
qed

text \<open>
  C9. Whatever the form holds, the configuration that \<^verbatim>\<open>startBot\<close> builds has
  \<^verbatim>\<open>notifications_enabled\<close> true, and every request to \<^verbatim>\<open>/api/bot/start\<close> that \<^verbatim>\<open>startBot\<close>
  sends is a POST whose body is that configuration. (With a cached token the first thing
  the handler sends is this request.)
\<close>

theorem notifications_enabled_always_true:
  "get_opt (botConfig P w) ''notifications_enabled'' = Bool True \<and>
   (\<forall>opts. Fetch ''/api/bot/start'' opts \<in> set (events_since w (snd (startBot e P w))) \<longrightarrow>
      http_method opts = Some ''POST'' \<and>
      (\<exists>cfg. body opts = Some cfg \<and> get_opt cfg ''notifications_enabled'' = Bool True)) \<and>
   (has_token w \<longrightarrow>
      (\<exists>rest. events_since w (snd (startBot e P w)) =
         Fetch ''/api/bot/start'' (mergeOptions w (post (Some (botConfig P (startBotBusy w))))) # rest))"
proof -
  have sent: "http_method opts = Some ''POST'' \<and>
      (\<exists>cfg. body opts = Some cfg \<and> get_opt cfg ''notifications_enabled'' = Bool True)"
    if "Fetch ''/api/bot/start'' opts \<in> set (events_since w (snd (startBot e P w)))" for opts
  proof -
    from evolves_events [OF evolves_startBot, of P w e] that
    have "requests_in (startRequests P w) (Fetch ''/api/bot/start'' opts)"
      by (simp add: list_all_iff)
    then have "http_method opts = Some ''POST'' \<and> body opts = Some (botConfig P (startBotBusy w))"
      by (simp add: requests_in_def startRequests_def statusRequests_def)
    then show ?thesis
      by (simp add: notifications_always_enabled)
  qed
  from sent notifications_always_enabled [of P w] startBot_first_event [of w e P] show ?thesis
    by blast
qed

theorem notifications_enabled_always_true_witness:
  "checked_of unchecked_form ''notifications-enabled'' = Bool False \<and>
   has_token unchecked_form \<and>
   get_opt (the (request_body (hd (log (snd (startBot (env_always 200) plain_prims unchecked_form))))))
     ''notifications_enabled'' = Bool True"
proof -
  have c: "checked_of unchecked_form ''notifications-enabled'' = Bool False"
    by (simp add: checked_of_def getElementById_def unchecked_form_def page_of_def blank_def)
  have t: "has_token unchecked_form"
    by (simp add: has_token_def unchecked_form_def world0_def)
  have l: "log unchecked_form = []"
    by (simp add: unchecked_form_def world0_def)
  from notifications_enabled_always_true [of plain_prims unchecked_form "env_always 200"] t
  obtain rest where r: "events_since unchecked_form (snd (startBot (env_always 200) plain_prims unchecked_form)) =
         Fetch ''/api/bot/start''
           (mergeOptions unchecked_form (post (Some (botConfig plain_prims (startBotBusy unchecked_form))))) # rest"
    by blast
  from notifications_enabled_always_true [of plain_prims "startBotBusy unchecked_form" "env_always 200"]
  have "get_opt (botConfig plain_prims (startBotBusy unchecked_form)) ''notifications_enabled'' = Bool True"
    by blast
  with r l c t show ?thesis
    by (simp add: events_since_def request_body_def mergeOptions_def post_def)
qed

section \<open>Properties of the dashboard load\<close>

lemma repaints_refl: "repaints w w"
  by (simp add: repaints_def)

lemma repaints_trans: "repaints a b \<Longrightarrow> repaints b c \<Longrightarrow> repaints a c"
  unfolding repaints_def by (metis world.surjective world.update_convs(7))

lemma repaints_fields:
  assumes "repaints w w'"
  shows "authToken w' = authToken w" "currentUser w' = currentUser w" "log w' = log w"
    "timers w' = timers w" "timerCount w' = timerCount w" "updateInterval w' = updateInterval w"
    "has_token w' = has_token w"
proof -
  from assms have e: "w' = w\<lparr>page := page w'\<rparr>" by (simp add: repaints_def)
  show "authToken w' = authToken w" by (subst e) simp
  then show "has_token w' = has_token w" by (simp add: has_token_def)
  show "currentUser w' = currentUser w" by (subst e) simp
  show "log w' = log w" by (subst e) simp
  show "timers w' = timers w" by (subst e) simp
  show "timerCount w' = timerCount w" by (subst e) simp
  show "updateInterval w' = updateInterval w" by (subst e) simp
qed

lemma repaints_update_element: "repaints w (update_element n f w)"
  by (simp add: repaints_def update_element_def split: option.splits)

lemma repaints_after:
  "repaints w w' \<Longrightarrow> repaints w (set_prop n p v w')"
  "repaints w w' \<Longrightarrow> repaints w (set_className n cs w')"
  "repaints w w' \<Longrightarrow> repaints w (add_class n c w')"
  "repaints w w' \<Longrightarrow> repaints w (remove_class n c w')"
  by (erule repaints_trans, simp add: dom_write_defs repaints_update_element)+





















lemma andThen_failed: "fst (m w) = Inl err \<Longrightarrow> andThen m f w = (Inl err, snd (m w))"
  by (cases "m w") (simp add: andThen_def)











lemma fetched_Cons:
  "fetched (Fetch ep opts # evs) = ep # fetched evs"
  "\<not> is_fetch ev \<Longrightarrow> fetched (ev # evs) = fetched evs"
  by (simp_all add: fetched_def is_fetch_def split: event.splits)

lemma fetched_requests_in:
  "list_all (requests_in S) evs \<Longrightarrow> set (fetched evs) \<subseteq> fst ` S"
proof (induction evs)
  case Nil
  then show ?case by (simp add: fetched_def)
next
  case (Cons ev evs)
  then have ih: "set (fetched evs) \<subseteq> fst ` S" by simp
  show ?case
  proof (cases "is_fetch ev")
    case False
    with ih show ?thesis by (simp add: fetched_Cons)
  next
    case True
    then obtain ep opts where ev: "ev = Fetch ep opts"
      by (cases ev) (simp_all add: is_fetch_def)
    with Cons.prems have "(ep, http_method opts, body opts) \<in> S"
      by (simp add: requests_in_def)
    then have "fst (ep, http_method opts, body opts) \<in> fst ` S"
      by (rule imageI)
    with ih ev show ?thesis by (simp add: fetched_Cons)
  qed
qed

lemma fetched_append: "fetched (xs @ ys) = fetched xs @ fetched ys"
  by (simp add: fetched_def)



































section \<open>Properties of the polling callback\<close>

lemma keeps_token_refl: "keeps_token w w"
  by (simp add: keeps_token_def)

lemma keeps_token_trans: "keeps_token a b \<Longrightarrow> keeps_token b c \<Longrightarrow> keeps_token a c"
  by (simp add: keeps_token_def)

lemma keeps_token_same: "authToken w' = authToken w \<Longrightarrow> keeps_token w w'"
  by (simp add: keeps_token_def has_token_def)

lemma keeps_token_getFreshToken:
  "good_tokens e \<Longrightarrow> keeps_token w (snd (getFreshToken e w))"
  by (auto simp: getFreshToken_def good_tokens_def keeps_token_def has_token_def Let_def
        split: option.splits sum.splits)

lemma keeps_token_doFetch: "keeps_token w (snd (doFetch e ep opts w))"
  by (simp add: doFetch_def keeps_token_same)

lemma keeps_token_retryAfter401:
  assumes "good_tokens e"
  shows "keeps_token w (snd (retryAfter401 e ep opts w))"
proof -
  obtain r w1 where g: "getFreshToken e w = (r, w1)" by (cases "getFreshToken e w")
  then have 1: "keeps_token w w1" using keeps_token_getFreshToken [OF assms, of w] by simp
  show ?thesis
  proof (cases r)
    case (Inl err)
    with g 1 show ?thesis by (simp add: retryAfter401_def retryBlock_def)
  next
    case (Inr t)
    let ?ro = "opts\<lparr>headers := AList.update ''Authorization'' (''Bearer '' @ token_text w1) (headers opts)\<rparr>"
    obtain r2 w2 where d: "doFetch e ep ?ro w1 = (r2, w2)" by (cases "doFetch e ep ?ro w1")
    then have "keeps_token w1 w2" using keeps_token_doFetch [of w1 e ep ?ro] by simp
    with 1 have "keeps_token w w2" by (rule keeps_token_trans)
    with g Inr d show ?thesis
      by (cases r2) (auto simp: retryAfter401_def retryBlock_def Let_def split: sum.splits)
  qed
qed

lemma keeps_token_makeAuthenticatedApiCall:
  assumes "good_tokens e"
  shows "keeps_token w (snd (makeAuthenticatedApiCall e ep options w))"
proof -
  obtain r w1 where t: "ensureToken e w = (r, w1)" by (cases "ensureToken e w")
  then have 1: "keeps_token w w1"
    using keeps_token_getFreshToken [OF assms, of w]
    by (cases "getFreshToken e w") (auto simp: ensureToken_def keeps_token_refl split: if_splits sum.splits)
  let ?mo = "mergeOptions w1 options"
  obtain r2 w2 where d: "doFetch e ep ?mo w1 = (r2, w2)" by (cases "doFetch e ep ?mo w1")
  then have "keeps_token w1 w2" using keeps_token_doFetch [of w1 e ep ?mo] by simp
  with 1 have 2: "keeps_token w w2" by (rule keeps_token_trans)
  have 3: "keeps_token w (snd (retryAfter401 e ep ?mo w2))"
    using 2 keeps_token_retryAfter401 [OF assms] by (rule keeps_token_trans)
  from t d 1 2 3 show ?thesis
    by (cases r; cases r2)
       (auto simp: makeAuthenticatedApiCall_def Let_def handleResponse_def)
qed

lemma repaints_showBotStatus: "repaints w (showBotStatus st w)"
  by (simp add: showBotStatus_def repaints_after repaints_refl)

lemma keeps_token_showBotStatus: "keeps_token w (showBotStatus st w)"
  by (rule keeps_token_same) (rule repaints_fields(1) [OF repaints_showBotStatus])

lemmas keeps_token_intros =
  stays_andThen [where R = keeps_token, OF keeps_token_trans]
  stays_tryCatch [where R = keeps_token, OF keeps_token_trans]
  stays_ret [where R = keeps_token, OF keeps_token_refl]
  stays_throw [where R = keeps_token, OF keeps_token_refl]
  stays_expr [where R = keeps_token, OF keeps_token_refl]
  stays_effect

lemma stays_keeps_token_makeAuthenticatedApiCall:
  "good_tokens e \<Longrightarrow> stays keeps_token (makeAuthenticatedApiCall e ep options)"
  by (simp add: stays_def keeps_token_makeAuthenticatedApiCall)

lemma keeps_token_getBotStatus:
  assumes "good_tokens e"
  shows "keeps_token w (getBotStatus e w)"
  unfolding getBotStatus_def
  by (rule staysD)
     (intro keeps_token_intros keeps_token_showBotStatus
        stays_keeps_token_makeAuthenticatedApiCall [OF assms])

lemma getBotStatus_first_event:
  assumes "has_token w"
  shows "\<exists>rest. events_since w (getBotStatus e w)
           = Fetch ''/api/bot/status'' (mergeOptions w no_options) # rest"
  unfolding getBotStatus_def
  by (rule tryCatch_first_event [where Q = "requests_in statusRequests"],
      rule andThen_first_event [where Q = "requests_in statusRequests"],
      rule api_call_first_event [OF assms])
     (intro evolves_intros evolves_showBotStatus stays_makeAuthenticatedApiCall;
      simp add: statusRequests_def request_of_def no_options_def)+

lemma loadAllDashboardData_first_event:
  assumes "has_token w"
  shows "\<exists>rest. events_since w (snd (loadAllDashboardData e P w))
           = Fetch ''/api/user/dashboard-data'' (mergeOptions w no_options) # rest"
proof -
  have c: "stays (evolves (requests_in dashboardRequests))
             (makeAuthenticatedApiCall e ''/api/user/dashboard-data'' no_options)"
    by (rule stays_makeAuthenticatedApiCall)
       (simp add: dashboardRequests_def request_of_def no_options_def)
  have "\<exists>rest. events_since w (snd (aggregateLoad e P w))
           = Fetch ''/api/user/dashboard-data'' (mergeOptions w no_options) # rest"
    unfolding aggregateLoad_def
    using api_call_first_event [OF assms] c stays_renderDashboard by (rule andThen_first_event)
  moreover have "stays (evolves (requests_in dashboardRequests))
      (andThen (showNotification loadFailedMessage ''error'' 5000)
          (\<lambda>u. tryCatch (loadFallbackData e P) (\<lambda>fallbackError. ret ())))" for err :: error
    by (intro evolves_intros stays_showNotification
          stays_requests_mono [OF stays_loadFallbackData])
       (auto simp: dashboardRequests_def)
  ultimately show ?thesis
    unfolding loadAllDashboardData_def
    using stays_aggregateLoad by (intro tryCatch_first_event)
qed

lemma periodicTick_unfold:
  "periodicTick e P now w =
     (if now mod 5 = 0 then snd (loadAllDashboardData e P (getBotStatus e w)) else getBotStatus e w)"
  by (cases "loadAllDashboardData e P (getBotStatus e w)")
     (auto simp: periodicTick_def tryCatch_def andThen_def effect_def ret_def split: sum.splits)

lemma tick_without_dashboard:
  assumes "now mod 5 \<noteq> 0"
  shows "''/api/user/dashboard-data'' \<notin> set (fetched (events_since w (periodicTick e P now w)))"
proof -
  have "evolves (requests_in statusRequests) w (getBotStatus e w)"
    by (rule evolves_getBotStatus)
  then have "set (fetched (events_since w (getBotStatus e w))) \<subseteq> fst ` statusRequests"
    by (intro fetched_requests_in evolves_events)
  then have "''/api/user/dashboard-data'' \<notin> set (fetched (events_since w (getBotStatus e w)))"
    by (auto simp: statusRequests_def)
  with assms show ?thesis by (simp add: periodicTick_unfold)
qed

lemma tick_with_dashboard:
  assumes "now mod 5 = 0" and "has_token w" and "good_tokens e"
  shows "''/api/user/dashboard-data'' \<in> set (fetched (events_since w (periodicTick e P now w)))"
proof -
  let ?w1 = "getBotStatus e w"
  let ?w2 = "snd (loadAllDashboardData e P ?w1)"
  have t: "has_token ?w1"
    using keeps_token_getBotStatus [OF assms(3), of w] assms(2) by (simp add: keeps_token_def)
  then obtain rest where r: "events_since ?w1 ?w2
      = Fetch ''/api/user/dashboard-data'' (mergeOptions ?w1 no_options) # rest"
    using loadAllDashboardData_first_event [of ?w1 e P] by blast
  have e1: "evolves (requests_in statusRequests) w ?w1"
    by (rule evolves_getBotStatus)
  have e2: "evolves (requests_in dashboardRequests) ?w1 ?w2"
    by (rule staysD [OF stays_loadAllDashboardData])
  from events_since_trans [OF e1 e2] r
  have "fetched (events_since w ?w2)
          = fetched (events_since w ?w1) @ ''/api/user/dashboard-data'' # fetched rest"
    by (simp add: fetched_append fetched_Cons)
  with assms(1) show ?thesis by (simp add: periodicTick_unfold)
qed

lemma polling_period:
  "(Suc (timerCount w), PeriodicUpdate, 30000) \<in> set (timers (startPeriodicUpdates w))"
  by (simp add: startPeriodicUpdates_def setInterval_def clearInterval_def Let_def)

text \<open>
  C3. The polling timer is registered with a period of 30000 ms. Its callback first asks
  for the bot status, and then loads the whole dashboard exactly when the minute read from
  the clock is a multiple of 5. In requests: with a cached token the tick starts with the
  request to \<^verbatim>\<open>/api/bot/status\<close>; a request to \<^verbatim>\<open>/api/user/dashboard-data\<close> on a tick implies
  that the minute is a multiple of 5, and on such a minute the request is made whenever a
  token is cached and the identity provider issues no empty token.
\<close>

theorem periodic_tick_polls_status_and_dashboard:
  "periodicTick e P now w =
     (if now mod 5 = 0 then snd (loadAllDashboardData e P (getBotStatus e w))
      else getBotStatus e w) \<and>
   (has_token w \<longrightarrow>
      (\<exists>rest. events_since w (getBotStatus e w)
         = Fetch ''/api/bot/status'' (mergeOptions w no_options) # rest)) \<and>
   (''/api/user/dashboard-data'' \<in> set (fetched (events_since w (periodicTick e P now w)))
      \<longrightarrow> now mod 5 = 0) \<and>
   (now mod 5 = 0 \<and> has_token w \<and> good_tokens e \<longrightarrow>
      ''/api/user/dashboard-data'' \<in> set (fetched (events_since w (periodicTick e P now w)))) \<and>
   (Suc (timerCount w), PeriodicUpdate, 30000) \<in> set (timers (startPeriodicUpdates w))"
proof (intro conjI impI)
  show "periodicTick e P now w =
     (if now mod 5 = 0 then snd (loadAllDashboardData e P (getBotStatus e w))
      else getBotStatus e w)"
    by (rule periodicTick_unfold)
  show "\<exists>rest. events_since w (getBotStatus e w)
         = Fetch ''/api/bot/status'' (mergeOptions w no_options) # rest" if "has_token w"
    using that by (rule getBotStatus_first_event)
  show "now mod 5 = 0"
    if "''/api/user/dashboard-data'' \<in> set (fetched (events_since w (periodicTick e P now w)))"
    using that tick_without_dashboard [of now w e P] by blast
  show "''/api/user/dashboard-data'' \<in> set (fetched (events_since w (periodicTick e P now w)))"
    if "now mod 5 = 0 \<and> has_token w \<and> good_tokens e"
  proof -
    from that have "now mod 5 = 0" and "has_token w" and "good_tokens e"
      by simp_all
    then show ?thesis by (rule tick_with_dashboard)
  qed
  show "(Suc (timerCount w), PeriodicUpdate, 30000) \<in> set (timers (startPeriodicUpdates w))"
    by (rule polling_period)
qed

theorem periodic_tick_polls_status_and_dashboard_witness:
  "has_token world0 \<and> good_tokens (env_always 200) \<and>
   ''/api/user/dashboard-data'' \<in>
     set (fetched (log (periodicTick (env_always 200) plain_prims 10 world0))) \<and>
   ''/api/user/dashboard-data'' \<notin>
     set (fetched (log (periodicTick (env_always 200) plain_prims 7 world0))) \<and>
   hd (log (getBotStatus (env_always 200) world0))
     = Fetch ''/api/bot/status'' (mergeOptions world0 no_options)"
proof -
  have t: "has_token world0"
    by (simp add: has_token_def world0_def)
  have g: "good_tokens (env_always 200)"
    by (simp add: good_tokens_def env_always_def)
  have l: "events_since world0 x = log x" for x
    by (simp add: events_since_def world0_def)
  note ten = periodic_tick_polls_status_and_dashboard [of "env_always 200" plain_prims 10 world0]
  note seven = periodic_tick_polls_status_and_dashboard [of "env_always 200" plain_prims 7 world0]
  from ten have "(10::nat) mod 5 = 0 \<and> has_token world0 \<and> good_tokens (env_always 200) \<longrightarrow>
      ''/api/user/dashboard-data'' \<in>
        set (fetched (events_since world0 (periodicTick (env_always 200) plain_prims 10 world0)))"
    by (elim conjE)
  with t g have a: "''/api/user/dashboard-data'' \<in>
     set (fetched (log (periodicTick (env_always 200) plain_prims 10 world0)))"
    by (simp add: l)
  from seven have "''/api/user/dashboard-data'' \<in>
        set (fetched (events_since world0 (periodicTick (env_always 200) plain_prims 7 world0)))
      \<longrightarrow> (7::nat) mod 5 = 0"
    by (elim conjE)
  then have b: "''/api/user/dashboard-data'' \<notin>
     set (fetched (log (periodicTick (env_always 200) plain_prims 7 world0)))"
    by (auto simp: l)
  from seven have "has_token world0 \<longrightarrow>
      (\<exists>rest. events_since world0 (getBotStatus (env_always 200) world0)
         = Fetch ''/api/bot/status'' (mergeOptions world0 no_options) # rest)"
    by (elim conjE)
  with t obtain rest where "events_since world0 (getBotStatus (env_always 200) world0)
         = Fetch ''/api/bot/status'' (mergeOptions world0 no_options) # rest"
    by blast
  then have c: "hd (log (getBotStatus (env_always 200) world0))
     = Fetch ''/api/bot/status'' (mergeOptions world0 no_options)"
    by (simp add: l)
  from t g a b c show ?thesis by blast
qed

end
